theory Spec2Isabelle
  imports Main "HOL-Library.Word"
begin

section \<open>Strings\<close>

text \<open>
  A Python \<^verbatim>\<open>str\<close> is a sequence of Unicode code points: \<^verbatim>\<open>len\<close>, slicing and
  \<^verbatim>\<open>in\<close> all count code points. It is modelled as a list of code points, so that the
  cross mark U+274C is one element and a chunk of 4096 characters is 4096 elements.
\<close>

type_synonym ustr = "nat list"

definition lit :: "string \<Rightarrow> ustr" where
  "lit s = map of_char s"

definition cross_mark :: nat where
  "cross_mark = 10060"

text \<open>\<^verbatim>\<open>s.endswith(suf)\<close> and \<^verbatim>\<open>s.startswith(pre)\<close>.\<close>

definition endswith :: "ustr \<Rightarrow> ustr \<Rightarrow> bool" where
  "endswith s suf = (length suf \<le> length s \<and> drop (length s - length suf) s = suf)"

definition startswith :: "ustr \<Rightarrow> ustr \<Rightarrow> bool" where
  "startswith s pre = (take (length pre) s = pre)"

text \<open>
  The characters that \<^verbatim>\<open>str.strip()\<close> removes are those for which
  \<^verbatim>\<open>str.isspace\<close> holds.
\<close>

definition is_space :: "nat \<Rightarrow> bool" where
  "is_space c = ((9 \<le> c \<and> c \<le> 13) \<or> (28 \<le> c \<and> c \<le> 32) \<or> c = 133 \<or> c = 160
     \<or> c = 5760 \<or> (8192 \<le> c \<and> c \<le> 8202) \<or> c = 8232 \<or> c = 8233 \<or> c = 8239
     \<or> c = 8287 \<or> c = 12288)"

definition strip :: "ustr \<Rightarrow> ustr" where
  "strip s = rev (dropWhile is_space (rev (dropWhile is_space s)))"

section \<open>Chunked inline delivery\<close>

text \<open>
  \<^verbatim>\<open>for i in range(0, len(text), chunk_size): reply_text(text[i : i + chunk_size])\<close>
  for a positive step. The loop variable is \<open>i\<close>; the slice of a Python string at
  non-negative bounds is \<open>take chunk_size (drop i text)\<close>.
\<close>

function chunk_loop :: "nat \<Rightarrow> nat \<Rightarrow> 'a list \<Rightarrow> 'a list list" where
  "chunk_loop i chunk_size text =
     (if 0 < chunk_size \<and> i < length text
      then take chunk_size (drop i text) # chunk_loop (i + chunk_size) chunk_size text
      else [])"
  by pat_completeness auto
termination
  by (relation "measure (\<lambda>(i, chunk_size, text). length text - i)") auto

declare chunk_loop.simps [simp del]


section \<open>The world the handlers act on\<close>

text \<open>
  Every exception the handlers can meet is an \<^verbatim>\<open>Exception\<close>: the ones Python raises
  itself (sequence index, tuple unpacking, a missing file) and the ones raised by the
  collaborators (download, Document AI client, file system), whose message is kept.
\<close>

datatype exn = IndexError | ValueError | FileNotFoundError | ExternalError ustr

text \<open>
  What a local file holds: the bytes of a download, the UTF-8 encoding of a text written
  with \<^verbatim>\<open>open(path, "w", encoding="utf-8")\<close>, or a Word document with one paragraph.
\<close>

datatype fcontent = Bytes "nat list" | Utf8 ustr | Docx ustr

record entity =
  ent_type :: ustr
  mention_text :: ustr

record ai_document =
  doc_text :: ustr
  entities :: "entity list"

record request =
  req_name :: ustr
  req_content :: fcontent
  req_mime_type :: ustr

text \<open>
  What reaches the user, in order: the acknowledgement of a callback, a text reply, a text
  reply with an inline keyboard (rows of buttons, each a label and its callback data), and
  a document reply (content, display file name, caption).
\<close>

datatype outmsg =
    AnswerCallback
  | ReplyText ustr
  | ReplyMarkup ustr "(ustr \<times> ustr) list list"
  | ReplyDocument fcontent ustr ustr

text \<open>
  The state: \<^verbatim>\<open>context.user_data\<close>, the local files, the messages sent so far, the
  records written by \<^verbatim>\<open>logging.error\<close> (the prefix and the exception), and the
  requests issued to the remote processors. Sending and logging append to their lists.
\<close>

record world =
  user_data :: "ustr \<rightharpoonup> ustr"
  files :: "ustr \<rightharpoonup> fcontent"
  sent :: "outmsg list"
  logged :: "(ustr \<times> exn) list"
  remote_calls :: "request list"

text \<open>
  What the collaborators answer during one event: the download of a file identifier
  (\<^verbatim>\<open>get_file\<close> and \<^verbatim>\<open>download_to_drive\<close>), the construction of the Document AI
  client, the remote \<^verbatim>\<open>process_document\<close> call, the value of \<^verbatim>\<open>uuid.uuid4()\<close>, and
  whether a file can be written at a path. The configuration read from the process
  environment is part of it.
\<close>

record env =
  download :: "ustr \<Rightarrow> exn + nat list"
  client_error :: "exn option"
  remote :: "request \<Rightarrow> exn + ai_document"
  uuid4 :: "128 word"
  write_error :: "ustr \<Rightarrow> exn option"
  PROJECT_ID :: ustr
  LOCATION :: ustr
  PROCESSOR_ID :: ustr
  SUMMARIZER_PROCESSOR_ID :: ustr

record attachment =
  att_file_id :: ustr
  att_file_name :: "ustr option"

text \<open>An incoming message: its document, if any, and the file identifiers of its photo sizes.\<close>

record message =
  document :: "attachment option"
  photo :: "ustr list"

record callback_query =
  data :: ustr

definition reply :: "outmsg \<Rightarrow> world \<Rightarrow> world" where
  "reply m w = w\<lparr>sent := sent w @ [m]\<rparr>"

definition log_error :: "ustr \<Rightarrow> exn \<Rightarrow> world \<Rightarrow> world" where
  "log_error prefix x w = w\<lparr>logged := logged w @ [(prefix, x)]\<rparr>"

section \<open>Messages\<close>

definition unsupported_msg :: ustr where
  "unsupported_msg = cross_mark # lit '' Unsupported file format.''"

definition no_text_msg :: ustr where
  "no_text_msg = cross_mark # lit '' No text recognized.''"

definition no_summary_msg :: ustr where
  "no_summary_msg = cross_mark # lit '' No summary could be generated.''"

definition processing_msg :: ustr where
  "processing_msg = 128260 # lit '' Processing file, please wait...''"

definition processing_error_msg :: ustr where
  "processing_error_msg =
     cross_mark # lit '' An error occurred while processing the document. Please try again!''"

definition retrieval_error_msg :: ustr where
  "retrieval_error_msg = cross_mark # lit '' Error retrieving processed text.''"

definition no_file_msg :: ustr where
  "no_file_msg = cross_mark # lit '' Cannot find the original file for summarization.''"

definition summarizing_msg :: ustr where
  "summarizing_msg = 128260 # lit '' Summarizing document, please wait...''"

definition summary_retrieval_error_msg :: ustr where
  "summary_retrieval_error_msg = cross_mark # lit '' Error retrieving summary.''"

definition invalid_option_msg :: ustr where
  "invalid_option_msg = cross_mark # lit '' Invalid option.''"

definition selection_error_msg :: ustr where
  "selection_error_msg =
     cross_mark # lit '' An error occurred while processing your selection.''"

definition choose_msg :: ustr where
  "choose_msg = 128221 # lit '' Choose an output format:''"

definition choose_summary_msg :: ustr where
  "choose_summary_msg = 128221 # lit '' Choose an output format for the summary:''"

definition extracted_header :: ustr where
  "extracted_header = 128220 # lit '' **Extracted Text:**'' @ [10, 10]"

definition summary_header :: ustr where
  "summary_header = 128221 # lit '' **Document Summary:**'' @ [10, 10]"

section \<open>Document processing\<close>

text \<open>The MIME type detection that both processing functions perform on the path.\<close>

definition mime_type_of :: "ustr \<Rightarrow> ustr option" where
  "mime_type_of file_path =
     (if endswith file_path (lit ''.jpg'') \<or> endswith file_path (lit ''.jpeg'')
         \<or> endswith file_path (lit ''.png'')
      then Some (lit ''image/jpeg'')
      else if endswith file_path (lit ''.pdf'') then Some (lit ''application/pdf'')
      else None)"

definition processor_path :: "env \<Rightarrow> ustr \<Rightarrow> ustr" where
  "processor_path e processor_id =
     lit ''projects/'' @ PROJECT_ID e @ lit ''/locations/'' @ LOCATION e
       @ lit ''/processors/'' @ processor_id"

text \<open>\<^verbatim>\<open>client.process_document(request=request)\<close>: the request is issued, then answered.\<close>

definition client_process_document ::
  "env \<Rightarrow> request \<Rightarrow> world \<Rightarrow> (exn + ai_document) \<times> world" where
  "client_process_document e req w =
     (remote e req, w\<lparr>remote_calls := remote_calls w @ [req]\<rparr>)"

definition process_document :: "env \<Rightarrow> ustr \<Rightarrow> world \<Rightarrow> (exn + ustr) \<times> world" where
  "process_document e file_path w =
     (case client_error e of
        Some x \<Rightarrow> (Inl x, w)
      | None \<Rightarrow>
     (case files w file_path of
        None \<Rightarrow> (Inl FileNotFoundError, w)
      | Some image_content \<Rightarrow>
     (case mime_type_of file_path of
        None \<Rightarrow> (Inr unsupported_msg, w)
      | Some mime_type \<Rightarrow>
     (case client_process_document e
             \<lparr>req_name = processor_path e (PROCESSOR_ID e),
              req_content = image_content, req_mime_type = mime_type\<rparr> w of
        (Inl x, w') \<Rightarrow> (Inl x, w')
      | (Inr doc, w') \<Rightarrow>
          (let extracted_text = doc_text doc
           in (Inr (if strip extracted_text \<noteq> [] then extracted_text else no_text_msg),
               w'))))))"

text \<open>
  \<^verbatim>\<open>for entity in document.entities: if entity.type_ == "summary": summary += entity.mention_text + "\n"\<close>
\<close>

fun summary_loop :: "entity list \<Rightarrow> ustr \<Rightarrow> ustr" where
  "summary_loop [] summary = summary"
| "summary_loop (entity # rest) summary =
     summary_loop rest
       (if ent_type entity = lit ''summary'' then summary @ (mention_text entity @ [10])
        else summary)"

text \<open>The summary text formed from a processing result, before the final emptiness check.\<close>

definition summary_text :: "ai_document \<Rightarrow> ustr" where
  "summary_text doc =
     (let summary = summary_loop (entities doc) []
      in if summary = [] then doc_text doc else summary)"

definition summarize_document :: "env \<Rightarrow> ustr \<Rightarrow> world \<Rightarrow> (exn + ustr) \<times> world" where
  "summarize_document e file_path w =
     (case client_error e of
        Some x \<Rightarrow> (Inl x, w)
      | None \<Rightarrow>
     (case files w file_path of
        None \<Rightarrow> (Inl FileNotFoundError, w)
      | Some document_content \<Rightarrow>
     (case mime_type_of file_path of
        None \<Rightarrow> (Inr unsupported_msg, w)
      | Some mime_type \<Rightarrow>
     (case client_process_document e
             \<lparr>req_name = processor_path e (SUMMARIZER_PROCESSOR_ID e),
              req_content = document_content, req_mime_type = mime_type\<rparr> w of
        (Inl x, w') \<Rightarrow> (Inl x, w')
      | (Inr doc, w') \<Rightarrow>
          (let summary = summary_text doc
           in (Inr (if strip summary \<noteq> [] then summary else no_summary_msg), w'))))))"

section \<open>Output rendering\<close>

text \<open>Writing a text file, which the file system may refuse.\<close>

definition write_text :: "env \<Rightarrow> ustr \<Rightarrow> ustr \<Rightarrow> world \<Rightarrow> (exn + unit) \<times> world" where
  "write_text e path text w =
     (case write_error e path of
        Some x \<Rightarrow> (Inl x, w)
      | None \<Rightarrow> (Inr (), w\<lparr>files := (files w)(path \<mapsto> Utf8 text)\<rparr>))"

text \<open>
  \<^verbatim>\<open>save_as_docx\<close> builds a document with one paragraph and saves it. The answer of
  the file system for the document's path stands for the whole step: the paragraph cannot
  be built from a text with characters that XML does not admit, and the file may not be
  writable.
\<close>

definition save_as_docx :: "env \<Rightarrow> ustr \<Rightarrow> ustr \<Rightarrow> world \<Rightarrow> (exn + ustr) \<times> world" where
  "save_as_docx e text file_name w =
     (let doc_path = lit ''outputs/'' @ file_name
      in case write_error e doc_path of
           Some x \<Rightarrow> (Inl x, w)
         | None \<Rightarrow> (Inr doc_path, w\<lparr>files := (files w)(doc_path \<mapsto> Docx text)\<rparr>))"

text \<open>
  \<^verbatim>\<open>with open(path, "rb") as doc: reply_document(InputFile(doc, filename=...), caption=...)\<close>
\<close>

definition reply_document ::
  "ustr \<Rightarrow> ustr \<Rightarrow> ustr \<Rightarrow> world \<Rightarrow> (exn + unit) \<times> world" where
  "reply_document path filename caption w =
     (case files w path of
        None \<Rightarrow> (Inl FileNotFoundError, w)
      | Some doc \<Rightarrow> (Inr (), reply (ReplyDocument doc filename caption) w))"

text \<open>
  \<^verbatim>\<open>range(0, len(text), chunk_size)\<close> raises for a zero step and is empty for a negative
  one.
\<close>

definition send_text_chunks :: "ustr \<Rightarrow> int \<Rightarrow> world \<Rightarrow> (exn + unit) \<times> world" where
  "send_text_chunks text chunk_size w =
     (if chunk_size = 0 then (Inl ValueError, w)
      else if chunk_size < 0 then (Inr (), w)
      else (Inr (), w\<lparr>sent := sent w @ map ReplyText (chunk_loop 0 (nat chunk_size) text)\<rparr>))"

section \<open>Session keys\<close>

text \<open>
  \<^verbatim>\<open>str(uuid.uuid4())\<close> prints the 128 bits of the identifier as 32 lower-case
  hexadecimal digits, most significant first, in groups of 8, 4, 4, 4 and 12 joined by
  hyphens.
\<close>

definition hex_digit :: "nat \<Rightarrow> nat" where
  "hex_digit n = (if n < 10 then 48 + n else 87 + n)"

definition uuid_hex :: "128 word \<Rightarrow> ustr" where
  "uuid_hex u = map (\<lambda>i. hex_digit (unat (drop_bit (4 * (31 - i)) u) mod 16)) [0..<32]"

definition uuid_str :: "128 word \<Rightarrow> ustr" where
  "uuid_str u =
     (let h = uuid_hex u
      in take 8 h @ 45 # take 4 (drop 8 h) @ 45 # take 4 (drop 12 h) @ 45
           # take 4 (drop 16 h) @ 45 # drop 20 h)"

text \<open>\<^verbatim>\<open>text_key = str(uuid.uuid4())[:8]\<close>\<close>

definition new_text_key :: "env \<Rightarrow> ustr" where
  "new_text_key e = take 8 (uuid_str (uuid4 e))"

text \<open>The keys that \<^verbatim>\<open>send_output_options\<close> can mint: eight hexadecimal digits.\<close>

definition is_hex_digit :: "nat \<Rightarrow> bool" where
  "is_hex_digit c = ((48 \<le> c \<and> c \<le> 57) \<or> (97 \<le> c \<and> c \<le> 102))"

definition is_session_key :: "ustr \<Rightarrow> bool" where
  "is_session_key k = (length k = 8 \<and> list_all is_hex_digit k)"

text \<open>The key under which the summary of a session is stored: \<^verbatim>\<open>f"summary_{text_key}"\<close>.\<close>

definition summary_key :: "ustr \<Rightarrow> ustr" where
  "summary_key text_key = lit ''summary_'' @ text_key"

definition file_path_key :: "ustr \<Rightarrow> ustr" where
  "file_path_key text_key = lit ''file_path_'' @ text_key"

definition current_file_path :: ustr where
  "current_file_path = lit ''current_file_path''"

section \<open>The workflow\<close>

definition output_keyboard :: "ustr \<Rightarrow> (ustr \<times> ustr) list list" where
  "output_keyboard text_key =
     [[(128233 # lit '' Message'', lit ''output_message|'' @ text_key),
       (128196 # lit '' TXT File'', lit ''output_txt|'' @ text_key)],
      [(128196 # 43 # 128233 # lit '' TXT & Message'', lit ''output_both|'' @ text_key),
       (128220 # lit '' Word File (DOCX)'', lit ''output_docx|'' @ text_key)],
      [(128221 # lit '' Summarize Document'', lit ''output_summarize|'' @ text_key)]]"

definition summary_keyboard :: "ustr \<Rightarrow> (ustr \<times> ustr) list list" where
  "summary_keyboard text_key =
     [[(128233 # lit '' Message'', lit ''summary_message|'' @ text_key),
       (128196 # lit '' TXT File'', lit ''summary_txt|'' @ text_key)],
      [(128220 # lit '' Word File (DOCX)'', lit ''summary_docx|'' @ text_key)]]"

definition send_output_options :: "env \<Rightarrow> ustr \<Rightarrow> world \<Rightarrow> world" where
  "send_output_options e text w =
     (let text_key = new_text_key e;
          w1 = w\<lparr>user_data := (user_data w)(text_key \<mapsto> text)\<rparr>;
          w2 = (case user_data w1 current_file_path of
                  None \<Rightarrow> w1
                | Some p \<Rightarrow> w1\<lparr>user_data := (user_data w1)(file_path_key text_key \<mapsto> p)\<rparr>)
      in reply (ReplyMarkup choose_msg (output_keyboard text_key)) w2)"

text \<open>
  The first statements of \<^verbatim>\<open>handle_document\<close>, before its \<^verbatim>\<open>try\<close>: the file is
  the document or else the last photo size, and the local name depends on whether the
  message has photo sizes. A missing \<^verbatim>\<open>file_name\<close> prints as \<^verbatim>\<open>None\<close>.
\<close>

definition select_file :: "message \<Rightarrow> exn + ustr \<times> ustr" where
  "select_file m =
     (case document m of
        Some d \<Rightarrow>
          Inr (att_file_id d,
               if photo m \<noteq> [] then lit ''downloads/'' @ att_file_id d @ lit ''.jpg''
               else lit ''downloads/''
                      @ (case att_file_name d of None \<Rightarrow> lit ''None'' | Some n \<Rightarrow> n))
      | None \<Rightarrow>
          if photo m = [] then Inl IndexError
          else Inr (last (photo m), lit ''downloads/'' @ last (photo m) @ lit ''.jpg''))"

text \<open>The body of the \<^verbatim>\<open>try\<close> of \<^verbatim>\<open>handle_document\<close>.\<close>

definition handle_document_try ::
  "env \<Rightarrow> ustr \<Rightarrow> ustr \<Rightarrow> world \<Rightarrow> (exn + unit) \<times> world" where
  "handle_document_try e file_id file_name w =
     (case download e file_id of
        Inl x \<Rightarrow> (Inl x, w)
      | Inr content \<Rightarrow>
          (let w1 = w\<lparr>files := (files w)(file_name \<mapsto> Bytes content)\<rparr>;
               w2 = w1\<lparr>user_data := (user_data w1)(current_file_path \<mapsto> file_name)\<rparr>;
               w3 = reply (ReplyText processing_msg) w2
           in case process_document e file_name w3 of
                (Inl x, w4) \<Rightarrow> (Inl x, w4)
              | (Inr extracted_text, w4) \<Rightarrow>
                  if cross_mark \<in> set extracted_text
                  then (Inr (), reply (ReplyText extracted_text) w4)
                  else (Inr (), send_output_options e extracted_text w4)))"

text \<open>
  A handler returns the exception that escapes it, if any, and the new state.
\<close>

definition handle_document :: "env \<Rightarrow> message \<Rightarrow> world \<Rightarrow> exn option \<times> world" where
  "handle_document e m w =
     (case select_file m of
        Inl x \<Rightarrow> (Some x, w)
      | Inr (file_id, file_name) \<Rightarrow>
          (case handle_document_try e file_id file_name w of
             (Inl x, w1) \<Rightarrow>
               (None, reply (ReplyText processing_error_msg)
                        (log_error (lit ''Error processing file: '') x w1))
           | (Inr u, w1) \<Rightarrow> (None, w1)))"

text \<open>\<^verbatim>\<open>s.split(sep)\<close> for a separator of one character.\<close>

fun split_str :: "nat \<Rightarrow> ustr \<Rightarrow> ustr list" where
  "split_str sep [] = [[]]"
| "split_str sep (c # cs) =
     (if c = sep then [] # split_str sep cs
      else (case split_str sep cs of
              [] \<Rightarrow> [[c]]
            | p # ps \<Rightarrow> (c # p) # ps))"

text \<open>The branch of \<^verbatim>\<open>handle_output_choice\<close> for \<^verbatim>\<open>option == "output_summarize"\<close>.\<close>

definition summarize_choice :: "env \<Rightarrow> ustr \<Rightarrow> world \<Rightarrow> (exn + unit) \<times> world" where
  "summarize_choice e text_key w =
     (let file_path = (case user_data w (file_path_key text_key) of None \<Rightarrow> [] | Some p \<Rightarrow> p)
      in if file_path = [] then (Inr (), reply (ReplyText no_file_msg) w)
         else
           (case summarize_document e file_path (reply (ReplyText summarizing_msg) w) of
              (Inl x, w1) \<Rightarrow> (Inl x, w1)
            | (Inr summary, w1) \<Rightarrow>
                if cross_mark \<in> set summary then (Inr (), reply (ReplyText summary) w1)
                else (Inr (),
                      reply (ReplyMarkup choose_summary_msg (summary_keyboard text_key))
                        (w1\<lparr>user_data := (user_data w1)(summary_key text_key \<mapsto> summary)\<rparr>))))"

text \<open>The branch for \<^verbatim>\<open>option.startswith("summary_")\<close>.\<close>

definition summary_choice :: "env \<Rightarrow> ustr \<Rightarrow> ustr \<Rightarrow> world \<Rightarrow> (exn + unit) \<times> world" where
  "summary_choice e option text_key w =
     (let summary = (case user_data w (summary_key text_key) of None \<Rightarrow> [] | Some s \<Rightarrow> s)
      in if summary = [] then (Inr (), reply (ReplyText summary_retrieval_error_msg) w)
         else
           (let summary_path = lit ''outputs/summary_'' @ text_key @ lit ''.txt''
            in case write_text e summary_path summary w of
                 (Inl x, w1) \<Rightarrow> (Inl x, w1)
               | (Inr u, w1) \<Rightarrow>
                   if option = lit ''summary_message''
                   then send_text_chunks (summary_header @ summary) 4096 w1
                   else if option = lit ''summary_txt''
                   then reply_document summary_path (lit ''document_summary.txt'')
                          (128196 # lit '' Here is your document summary.'') w1
                   else if option = lit ''summary_docx''
                   then (case save_as_docx e summary
                                (lit ''summary_'' @ text_key @ lit ''.docx'') w1 of
                           (Inl x, w2) \<Rightarrow> (Inl x, w2)
                         | (Inr docx_file_path, w2) \<Rightarrow>
                             reply_document docx_file_path (lit ''document_summary.docx'')
                               (128220
                                  # lit '' Here is your document summary as a Word document.'')
                               w2)
                   else (Inr (), w1)))"

text \<open>The remaining statements: the original options.\<close>

definition primary_choice ::
  "env \<Rightarrow> ustr \<Rightarrow> ustr \<Rightarrow> ustr \<Rightarrow> world \<Rightarrow> (exn + unit) \<times> world" where
  "primary_choice e option text_key extracted_text w =
     (let txt_path = lit ''outputs/'' @ text_key @ lit ''.txt''
      in case write_text e txt_path extracted_text w of
           (Inl x, w1) \<Rightarrow> (Inl x, w1)
         | (Inr u, w1) \<Rightarrow>
             if option = lit ''output_message''
             then send_text_chunks (extracted_header @ extracted_text) 4096 w1
             else if option = lit ''output_txt''
             then reply_document txt_path (lit ''extracted_text.txt'')
                    (128196 # lit '' Here is your extracted text file.'') w1
             else if option = lit ''output_both''
             then (case send_text_chunks (extracted_header @ extracted_text) 4096 w1 of
                     (Inl x, w2) \<Rightarrow> (Inl x, w2)
                   | (Inr u2, w2) \<Rightarrow>
                       reply_document txt_path (lit ''extracted_text.txt'')
                         (128196 # lit '' Here is your extracted text file.'') w2)
             else if option = lit ''output_docx''
             then (case save_as_docx e extracted_text (text_key @ lit ''.docx'') w1 of
                     (Inl x, w2) \<Rightarrow> (Inl x, w2)
                   | (Inr docx_file_path, w2) \<Rightarrow>
                       reply_document docx_file_path (lit ''extracted_text.docx'')
                         (128220 # lit '' Here is your extracted text as a Word document.'')
                         w2)
             else (Inr (), reply (ReplyText invalid_option_msg) w1))"

text \<open>
  The body of the \<^verbatim>\<open>try\<close> of \<^verbatim>\<open>handle_output_choice\<close>. Unpacking the split callback
  data into two names raises unless there are exactly two parts.
\<close>

definition handle_output_choice_try ::
  "env \<Rightarrow> callback_query \<Rightarrow> world \<Rightarrow> (exn + unit) \<times> world" where
  "handle_output_choice_try e query w =
     (case split_str 124 (data query) of
        [option, text_key] \<Rightarrow>
          (let extracted_text = (case user_data w text_key of None \<Rightarrow> [] | Some t \<Rightarrow> t)
           in if extracted_text = [] then (Inr (), reply (ReplyText retrieval_error_msg) w)
              else if option = lit ''output_summarize'' then summarize_choice e text_key w
              else if startswith option (lit ''summary_'')
              then summary_choice e option text_key w
              else primary_choice e option text_key extracted_text w)
      | _ \<Rightarrow> (Inl ValueError, w))"

definition handle_output_choice ::
  "env \<Rightarrow> callback_query \<Rightarrow> world \<Rightarrow> exn option \<times> world" where
  "handle_output_choice e query w =
     (case handle_output_choice_try e query (reply AnswerCallback w) of
        (Inl x, w1) \<Rightarrow>
          (None, reply (ReplyText selection_error_msg)
                   (log_error (lit ''Error handling output choice: '') x w1))
      | (Inr u, w1) \<Rightarrow> (None, w1))"

section \<open>The handlers over a transport that can refuse a message\<close>

text \<open>
  Every \<^verbatim>\<open>reply_text\<close>, \<^verbatim>\<open>reply_document\<close> and \<^verbatim>\<open>query.answer\<close> is a network
  call and can raise. A transport answers, for the messages delivered so far and the message
  to send, with the exception it raises or with none. The definitions of this section are
  the handlers statement by statement once more, with every send asking the transport; the
  definitions above are what they come to when the transport accepts every message.
\<close>

type_synonym transport = "outmsg list \<Rightarrow> outmsg \<Rightarrow> exn option"

definition send :: "transport \<Rightarrow> outmsg \<Rightarrow> world \<Rightarrow> (exn + unit) \<times> world" where
  "send tr m w =
     (case tr (sent w) m of
        Some x \<Rightarrow> (Inl x, w)
      | None \<Rightarrow> (Inr (), reply m w))"

text \<open>The loop of \<^verbatim>\<open>send_text_chunks\<close> stops at the first send that raises.\<close>

fun send_chunks :: "transport \<Rightarrow> ustr list \<Rightarrow> world \<Rightarrow> (exn + unit) \<times> world" where
  "send_chunks tr [] w = (Inr (), w)"
| "send_chunks tr (c # cs) w =
     (case send tr (ReplyText c) w of
        (Inl x, w1) \<Rightarrow> (Inl x, w1)
      | (Inr u, w1) \<Rightarrow> send_chunks tr cs w1)"

definition send_text_chunks_tr ::
  "transport \<Rightarrow> ustr \<Rightarrow> int \<Rightarrow> world \<Rightarrow> (exn + unit) \<times> world" where
  "send_text_chunks_tr tr text chunk_size w =
     (if chunk_size = 0 then (Inl ValueError, w)
      else if chunk_size < 0 then (Inr (), w)
      else send_chunks tr (chunk_loop 0 (nat chunk_size) text) w)"

definition reply_document_tr ::
  "transport \<Rightarrow> ustr \<Rightarrow> ustr \<Rightarrow> ustr \<Rightarrow> world \<Rightarrow> (exn + unit) \<times> world" where
  "reply_document_tr tr path filename caption w =
     (case files w path of
        None \<Rightarrow> (Inl FileNotFoundError, w)
      | Some doc \<Rightarrow> send tr (ReplyDocument doc filename caption) w)"

definition send_output_options_tr ::
  "transport \<Rightarrow> env \<Rightarrow> ustr \<Rightarrow> world \<Rightarrow> (exn + unit) \<times> world" where
  "send_output_options_tr tr e text w =
     (let text_key = new_text_key e;
          w1 = w\<lparr>user_data := (user_data w)(text_key \<mapsto> text)\<rparr>;
          w2 = (case user_data w1 current_file_path of
                  None \<Rightarrow> w1
                | Some p \<Rightarrow> w1\<lparr>user_data := (user_data w1)(file_path_key text_key \<mapsto> p)\<rparr>)
      in send tr (ReplyMarkup choose_msg (output_keyboard text_key)) w2)"

definition handle_document_try_tr ::
  "transport \<Rightarrow> env \<Rightarrow> ustr \<Rightarrow> ustr \<Rightarrow> world \<Rightarrow> (exn + unit) \<times> world" where
  "handle_document_try_tr tr e file_id file_name w =
     (case download e file_id of
        Inl x \<Rightarrow> (Inl x, w)
      | Inr content \<Rightarrow>
          (let w1 = w\<lparr>files := (files w)(file_name \<mapsto> Bytes content)\<rparr>;
               w2 = w1\<lparr>user_data := (user_data w1)(current_file_path \<mapsto> file_name)\<rparr>
           in case send tr (ReplyText processing_msg) w2 of
                (Inl x, w3) \<Rightarrow> (Inl x, w3)
              | (Inr u, w3) \<Rightarrow>
                  (case process_document e file_name w3 of
                     (Inl x, w4) \<Rightarrow> (Inl x, w4)
                   | (Inr extracted_text, w4) \<Rightarrow>
                       if cross_mark \<in> set extracted_text
                       then send tr (ReplyText extracted_text) w4
                       else send_output_options_tr tr e extracted_text w4)))"

text \<open>
  The \<^verbatim>\<open>except\<close> clause logs the exception and then sends the notice; an exception
  raised by that send is the one that leaves the handler.
\<close>

definition handle_document_tr ::
  "transport \<Rightarrow> env \<Rightarrow> message \<Rightarrow> world \<Rightarrow> exn option \<times> world" where
  "handle_document_tr tr e m w =
     (case select_file m of
        Inl x \<Rightarrow> (Some x, w)
      | Inr (file_id, file_name) \<Rightarrow>
          (case handle_document_try_tr tr e file_id file_name w of
             (Inl x, w1) \<Rightarrow>
               (case send tr (ReplyText processing_error_msg)
                       (log_error (lit ''Error processing file: '') x w1) of
                  (Inl y, w2) \<Rightarrow> (Some y, w2)
                | (Inr u, w2) \<Rightarrow> (None, w2))
           | (Inr u, w1) \<Rightarrow> (None, w1)))"

definition summarize_choice_tr ::
  "transport \<Rightarrow> env \<Rightarrow> ustr \<Rightarrow> world \<Rightarrow> (exn + unit) \<times> world" where
  "summarize_choice_tr tr e text_key w =
     (let file_path = (case user_data w (file_path_key text_key) of None \<Rightarrow> [] | Some p \<Rightarrow> p)
      in if file_path = [] then send tr (ReplyText no_file_msg) w
         else
           (case send tr (ReplyText summarizing_msg) w of
              (Inl x, w0) \<Rightarrow> (Inl x, w0)
            | (Inr u, w0) \<Rightarrow>
                (case summarize_document e file_path w0 of
                   (Inl x, w1) \<Rightarrow> (Inl x, w1)
                 | (Inr summary, w1) \<Rightarrow>
                     if cross_mark \<in> set summary then send tr (ReplyText summary) w1
                     else send tr (ReplyMarkup choose_summary_msg (summary_keyboard text_key))
                            (w1\<lparr>user_data :=
                                  (user_data w1)(summary_key text_key \<mapsto> summary)\<rparr>))))"

definition summary_choice_tr ::
  "transport \<Rightarrow> env \<Rightarrow> ustr \<Rightarrow> ustr \<Rightarrow> world \<Rightarrow> (exn + unit) \<times> world" where
  "summary_choice_tr tr e option text_key w =
     (let summary = (case user_data w (summary_key text_key) of None \<Rightarrow> [] | Some s \<Rightarrow> s)
      in if summary = [] then send tr (ReplyText summary_retrieval_error_msg) w
         else
           (let summary_path = lit ''outputs/summary_'' @ text_key @ lit ''.txt''
            in case write_text e summary_path summary w of
                 (Inl x, w1) \<Rightarrow> (Inl x, w1)
               | (Inr u, w1) \<Rightarrow>
                   if option = lit ''summary_message''
                   then send_text_chunks_tr tr (summary_header @ summary) 4096 w1
                   else if option = lit ''summary_txt''
                   then reply_document_tr tr summary_path (lit ''document_summary.txt'')
                          (128196 # lit '' Here is your document summary.'') w1
                   else if option = lit ''summary_docx''
                   then (case save_as_docx e summary
                                (lit ''summary_'' @ text_key @ lit ''.docx'') w1 of
                           (Inl x, w2) \<Rightarrow> (Inl x, w2)
                         | (Inr docx_file_path, w2) \<Rightarrow>
                             reply_document_tr tr docx_file_path
                               (lit ''document_summary.docx'')
                               (128220
                                  # lit '' Here is your document summary as a Word document.'')
                               w2)
                   else (Inr (), w1)))"

definition primary_choice_tr ::
  "transport \<Rightarrow> env \<Rightarrow> ustr \<Rightarrow> ustr \<Rightarrow> ustr \<Rightarrow> world \<Rightarrow> (exn + unit) \<times> world" where
  "primary_choice_tr tr e option text_key extracted_text w =
     (let txt_path = lit ''outputs/'' @ text_key @ lit ''.txt''
      in case write_text e txt_path extracted_text w of
           (Inl x, w1) \<Rightarrow> (Inl x, w1)
         | (Inr u, w1) \<Rightarrow>
             if option = lit ''output_message''
             then send_text_chunks_tr tr (extracted_header @ extracted_text) 4096 w1
             else if option = lit ''output_txt''
             then reply_document_tr tr txt_path (lit ''extracted_text.txt'')
                    (128196 # lit '' Here is your extracted text file.'') w1
             else if option = lit ''output_both''
             then (case send_text_chunks_tr tr (extracted_header @ extracted_text) 4096 w1 of
                     (Inl x, w2) \<Rightarrow> (Inl x, w2)
                   | (Inr u2, w2) \<Rightarrow>
                       reply_document_tr tr txt_path (lit ''extracted_text.txt'')
                         (128196 # lit '' Here is your extracted text file.'') w2)
             else if option = lit ''output_docx''
             then (case save_as_docx e extracted_text (text_key @ lit ''.docx'') w1 of
                     (Inl x, w2) \<Rightarrow> (Inl x, w2)
                   | (Inr docx_file_path, w2) \<Rightarrow>
                       reply_document_tr tr docx_file_path (lit ''extracted_text.docx'')
                         (128220 # lit '' Here is your extracted text as a Word document.'')
                         w2)
             else send tr (ReplyText invalid_option_msg) w1)"

definition handle_output_choice_try_tr ::
  "transport \<Rightarrow> env \<Rightarrow> callback_query \<Rightarrow> world \<Rightarrow> (exn + unit) \<times> world" where
  "handle_output_choice_try_tr tr e query w =
     (case split_str 124 (data query) of
        [option, text_key] \<Rightarrow>
          (let extracted_text = (case user_data w text_key of None \<Rightarrow> [] | Some t \<Rightarrow> t)
           in if extracted_text = [] then send tr (ReplyText retrieval_error_msg) w
              else if option = lit ''output_summarize''
              then summarize_choice_tr tr e text_key w
              else if startswith option (lit ''summary_'')
              then summary_choice_tr tr e option text_key w
              else primary_choice_tr tr e option text_key extracted_text w)
      | _ \<Rightarrow> (Inl ValueError, w))"

text \<open>
  \<^verbatim>\<open>await query.answer()\<close> precedes the \<^verbatim>\<open>try\<close>: an exception it raises leaves the
  handler at once.
\<close>

definition handle_output_choice_tr ::
  "transport \<Rightarrow> env \<Rightarrow> callback_query \<Rightarrow> world \<Rightarrow> exn option \<times> world" where
  "handle_output_choice_tr tr e query w =
     (case send tr AnswerCallback w of
        (Inl y, w0) \<Rightarrow> (Some y, w0)
      | (Inr u0, w0) \<Rightarrow>
          (case handle_output_choice_try_tr tr e query w0 of
             (Inl x, w1) \<Rightarrow>
               (case send tr (ReplyText selection_error_msg)
                       (log_error (lit ''Error handling output choice: '') x w1) of
                  (Inl y, w2) \<Rightarrow> (Some y, w2)
                | (Inr u, w2) \<Rightarrow> (None, w2))
           | (Inr u, w1) \<Rightarrow> (None, w1)))"

text \<open>The transport that accepts every message.\<close>

definition accept_all :: transport where
  "accept_all = (\<lambda>delivered m. None)"

section \<open>Example data\<close>

text \<open>The state before any event: nothing stored, written, sent, logged or requested.\<close>

definition empty_world :: world where
  "empty_world =
     \<lparr>user_data = Map.empty, files = Map.empty, sent = [], logged = [], remote_calls = []\<rparr>"

text \<open>
  Collaborators that all succeed: the download yields three bytes, the processors answer
  with the text \<open>Hello world\<close> and no entities, the identifier is
  \<open>1b4e28ba-2fa1-4d3b-8f3a-0c9d7e6f5a4b\<close>, and
  every file can be written.
\<close>

definition example_env :: env where
  "example_env =
     \<lparr>download = (\<lambda>i. Inr [1, 2, 3]), client_error = None,
      remote = (\<lambda>r. Inr \<lparr>doc_text = lit ''Hello world'', entities = []\<rparr>),
      uuid4 = 0x1b4e28ba2fa14d3b8f3a0c9d7e6f5a4b, write_error = (\<lambda>p. None),
      PROJECT_ID = lit ''proj'', LOCATION = lit ''eu'', PROCESSOR_ID = lit ''ocr'',
      SUMMARIZER_PROCESSOR_ID = lit ''sum''\<rparr>"

text \<open>The same collaborators, except that the extracted text contains the cross mark.\<close>

definition cross_mark_env :: env where
  "cross_mark_env =
     example_env\<lparr>remote := (\<lambda>r. Inr \<lparr>doc_text = lit ''Exit '' @ cross_mark # lit '' closed'',
                                       entities = []\<rparr>)\<rparr>"

definition photo_message :: message where
  "photo_message = \<lparr>document = None, photo = [lit ''p1'']\<rparr>"

definition text_file_message :: message where
  "text_file_message =
     \<lparr>document = Some \<lparr>att_file_id = lit ''d1'', att_file_name = Some (lit ''notes.txt'')\<rparr>,
      photo = []\<rparr>"

text \<open>
  An upload of a document named \<open>report.pdf\<close> into a state where an earlier session,
  with key \<open>ab12cd34\<close>, has its text stored and its source file saved under the same
  name. The download succeeds, the remote call fails, and the transport refuses the error
  notice of \<^verbatim>\<open>handle_document\<close>.
\<close>

definition report_message :: message where
  "report_message =
     \<lparr>document = Some \<lparr>att_file_id = lit ''d2'', att_file_name = Some (lit ''report.pdf'')\<rparr>,
      photo = []\<rparr>"

definition earlier_session_world :: world where
  "earlier_session_world =
     empty_world
       \<lparr>user_data := [lit ''ab12cd34'' \<mapsto> lit ''old text'',
                       file_path_key (lit ''ab12cd34'') \<mapsto> lit ''downloads/report.pdf''],
        files := [lit ''downloads/report.pdf'' \<mapsto> Bytes [9, 9]]\<rparr>"

definition remote_down_env :: env where
  "remote_down_env = example_env\<lparr>remote := (\<lambda>r. Inl (ExternalError (lit ''unavailable'')))\<rparr>"

definition refuse_error_notice :: transport where
  "refuse_error_notice =
     (\<lambda>delivered m. if m = ReplyText processing_error_msg
                      then Some (ExternalError (lit ''network down'')) else None)"

section \<open>Properties\<close>

subsection \<open>The chunk loop\<close>

lemma concat_chunk_loop: "0 < c \<Longrightarrow> concat (chunk_loop i c t) = drop i t"
proof (induction i c t rule: chunk_loop.induct)
  case (1 i c t)
  show ?case
  proof (cases "i < length t")
    case True
    with 1 have "concat (chunk_loop (i + c) c t) = drop (i + c) t" by simp
    moreover have "take c (drop i t) @ drop (i + c) t = drop i t"
      by (metis add.commute append_take_drop_id drop_drop)
    ultimately show ?thesis
      using True 1(2) by (subst chunk_loop.simps) simp
  next
    case False
    then show ?thesis by (subst chunk_loop.simps) simp
  qed
qed

lemma chunk_loop_bounded: "x \<in> set (chunk_loop i c t) \<Longrightarrow> length x \<le> c \<and> x \<noteq> []"
proof (induction i c t rule: chunk_loop.induct)
  case (1 i c t)
  from 1(2) have ok: "0 < c \<and> i < length t"
    by (subst (asm) chunk_loop.simps) (simp split: if_splits)
  with 1(2) have "x = take c (drop i t) \<or> x \<in> set (chunk_loop (i + c) c t)"
    by (subst (asm) chunk_loop.simps) simp
  then show ?case
  proof
    assume "x = take c (drop i t)"
    with ok show ?thesis by simp
  next
    assume "x \<in> set (chunk_loop (i + c) c t)"
    with 1(1) ok show ?thesis by simp
  qed
qed

lemma chunk_loop_nth:
  "k < length (chunk_loop i c t) \<Longrightarrow> chunk_loop i c t ! k = take c (drop (i + k * c) t)"
proof (induction i c t arbitrary: k rule: chunk_loop.induct)
  case (1 i c t)
  from 1(2) have ok: "0 < c \<and> i < length t"
    by (subst (asm) chunk_loop.simps) (simp split: if_splits)
  then have unf: "chunk_loop i c t = take c (drop i t) # chunk_loop (i + c) c t"
    by (subst chunk_loop.simps) simp
  show ?case
  proof (cases k)
    case 0
    then show ?thesis using unf by simp
  next
    case (Suc j)
    with 1(2) unf have "j < length (chunk_loop (i + c) c t)" by simp
    with 1(1) ok have "chunk_loop (i + c) c t ! j = take c (drop (i + c + j * c) t)" by simp
    then show ?thesis using unf Suc by (simp add: add.assoc)
  qed
qed

subsection \<open>Strings and keys\<close>

lemma lit_eq_iff: "lit a = lit b \<longleftrightarrow> a = b"
  by (simp add: lit_def inj_map_eq_map inj_on_def)

lemma lit_small: "c \<in> set (lit s) \<Longrightarrow> c < 256"
  unfolding lit_def by (auto intro: nat_of_char_less_256)

lemma split_str_no_sep: "sep \<notin> set b \<Longrightarrow> split_str sep b = [b]"
  by (induction b) auto

lemma split_str_one_sep:
  "sep \<notin> set a \<Longrightarrow> sep \<notin> set b \<Longrightarrow> split_str sep (a @ sep # b) = [a, b]"
  by (induction a) (auto simp: split_str_no_sep)

lemma length_uuid_hex: "length (uuid_hex u) = 32"
  by (simp add: uuid_hex_def)

lemma new_text_key_eq:
  "new_text_key e
     = map (\<lambda>i. hex_digit (unat (drop_bit (4 * (31 - i)) (uuid4 e)) mod 16)) [0..<8]"
  by (simp add: new_text_key_def uuid_str_def Let_def length_uuid_hex uuid_hex_def take_map)

lemma hex_digit_is_hex: "n < 16 \<Longrightarrow> is_hex_digit (hex_digit n)"
  by (auto simp: hex_digit_def is_hex_digit_def)

lemma new_text_key_is_session_key: "is_session_key (new_text_key e)"
  by (simp add: is_session_key_def new_text_key_eq list_all_iff hex_digit_is_hex)

subsection \<open>What each operation leaves unchanged\<close>

lemma process_document_frame:
  "process_document e p w = (r, w') \<Longrightarrow>
     user_data w' = user_data w \<and> files w' = files w \<and> sent w' = sent w \<and> logged w' = logged w"
  by (auto simp: process_document_def client_process_document_def Let_def
           split: option.splits sum.splits prod.splits)

lemma summarize_document_frame:
  "summarize_document e p w = (r, w') \<Longrightarrow>
     user_data w' = user_data w \<and> files w' = files w \<and> sent w' = sent w \<and> logged w' = logged w"
  by (auto simp: summarize_document_def client_process_document_def Let_def
           split: option.splits sum.splits prod.splits)

lemma write_text_user_data: "write_text e p t w = (r, w') \<Longrightarrow> user_data w' = user_data w"
  by (auto simp: write_text_def split: option.splits)

lemma save_as_docx_user_data: "save_as_docx e t n w = (r, w') \<Longrightarrow> user_data w' = user_data w"
  by (auto simp: save_as_docx_def Let_def split: option.splits)

lemma reply_document_user_data:
  "reply_document p n c w = (r, w') \<Longrightarrow> user_data w' = user_data w"
  by (auto simp: reply_document_def reply_def split: option.splits)

lemma send_text_chunks_user_data:
  "send_text_chunks t c w = (r, w') \<Longrightarrow> user_data w' = user_data w"
  by (auto simp: send_text_chunks_def split: if_splits)

lemma user_data_reply [simp]: "user_data (reply m w) = user_data w"
  by (simp add: reply_def)

lemma user_data_log_error [simp]: "user_data (log_error p x w) = user_data w"
  by (simp add: log_error_def)

lemma summarize_choice_user_data:
  "summarize_choice e tk w = (r, w') \<Longrightarrow> k \<noteq> summary_key tk \<Longrightarrow> user_data w' k = user_data w k"
  by (auto simp: summarize_choice_def Let_def
           split: option.splits sum.splits prod.splits if_splits
           dest!: summarize_document_frame)

lemma summarize_choice_raises:
  "summarize_choice e tk w = (Inl x, w') \<Longrightarrow> user_data w' = user_data w"
  by (auto simp: summarize_choice_def Let_def
           split: option.splits sum.splits prod.splits if_splits
           dest!: summarize_document_frame)

lemma summary_choice_user_data:
  "summary_choice e opt tk w = (r, w') \<Longrightarrow> user_data w' = user_data w"
  by (auto simp: summary_choice_def Let_def
           split: option.splits sum.splits prod.splits if_splits
           dest!: write_text_user_data save_as_docx_user_data reply_document_user_data
                  send_text_chunks_user_data)

lemma primary_choice_user_data:
  "primary_choice e opt tk t w = (r, w') \<Longrightarrow> user_data w' = user_data w"
  by (auto simp: primary_choice_def Let_def
           split: option.splits sum.splits prod.splits if_splits
           dest!: write_text_user_data save_as_docx_user_data reply_document_user_data
                  send_text_chunks_user_data)

subsection \<open>Session keys, stores and files\<close>

lemma current_file_path_not_session_key: "\<not> is_session_key current_file_path"
  by (simp add: is_session_key_def current_file_path_def lit_def)

lemma summary_loop_acc:
  "summary_loop es acc
     = acc @ concat (map (\<lambda>en. mention_text en @ [10])
                      (filter (\<lambda>en. ent_type en = lit ''summary'') es))"
  by (induction es arbitrary: acc) auto

lemma summary_key_not_session_key: "is_session_key K \<Longrightarrow> summary_key tk \<noteq> K"
  by (auto simp: is_session_key_def summary_key_def lit_def is_hex_digit_def)

lemma new_text_key_example: "new_text_key example_env = lit ''1b4e28ba''"
  by (simp add: new_text_key_eq example_env_def hex_digit_def lit_def upt_rec [of 0]
        upt_rec [of "Suc _"] drop_bit_eq_div unat_div)

lemma file_path_key_not_session_key: "is_session_key K \<Longrightarrow> file_path_key tk \<noteq> K"
  by (auto simp: is_session_key_def file_path_key_def lit_def)

lemma send_output_options_user_data:
  assumes "k \<noteq> new_text_key e" and "k \<noteq> file_path_key (new_text_key e)"
  shows "user_data (send_output_options e t w) k = user_data w k"
proof (cases "((user_data w)(new_text_key e \<mapsto> t)) current_file_path")
  case None
  then show ?thesis
    using assms by (simp add: send_output_options_def Let_def reply_def)
next
  case (Some p)
  then show ?thesis
    using assms by (simp add: send_output_options_def Let_def reply_def)
qed

lemma handle_output_choice_try_session_key:
  assumes "handle_output_choice_try e q w = (r, w')" and "is_session_key K"
  shows "user_data w' K = user_data w K"
proof -
  have neq: "\<And>tk. K \<noteq> summary_key tk"
    using assms(2) summary_key_not_session_key by blast
  show ?thesis
    using assms(1) neq
    by (auto simp: handle_output_choice_try_def Let_def
          split: list.splits if_splits option.splits
          dest: summarize_choice_user_data summary_choice_user_data
                primary_choice_user_data)
qed

lemma handle_document_try_user_data:
  assumes "handle_document_try e file_id file_name w = (r, w')"
    and "k \<noteq> current_file_path" and "k \<noteq> new_text_key e"
    and "k \<noteq> file_path_key (new_text_key e)"
  shows "user_data w' k = user_data w k"
  using assms
  by (auto simp: handle_document_try_def Let_def send_output_options_user_data
        split: sum.splits prod.splits if_splits
        dest!: process_document_frame)

lemma file_path_key_neq: "file_path_key k \<noteq> k"
  by (simp add: file_path_key_def lit_def)

lemma send_output_options_stores:
  "user_data (send_output_options e t w) (new_text_key e) = Some t"
  using file_path_key_neq [of "new_text_key e"]
  by (cases "((user_data w)(new_text_key e \<mapsto> t)) current_file_path")
     (auto simp: send_output_options_def Let_def reply_def)

lemma sent_send_output_options:
  "sent (send_output_options e t w)
     = sent w @ [ReplyMarkup choose_msg (output_keyboard (new_text_key e))]"
  by (cases "((user_data w)(new_text_key e \<mapsto> t)) current_file_path")
     (simp_all add: send_output_options_def Let_def reply_def)

lemma summarize_split:
  "124 \<notin> set text_key \<Longrightarrow>
     split_str 124 (lit ''output_summarize|'' @ text_key) = [lit ''output_summarize'', text_key]"
proof -
  assume a: "124 \<notin> set text_key"
  have "lit ''output_summarize|'' @ text_key = lit ''output_summarize'' @ 124 # text_key"
    by (simp add: lit_def)
  moreover have "124 \<notin> set (lit ''output_summarize'')"
    by (simp add: lit_def)
  ultimately show ?thesis using a by (simp add: split_str_one_sep)
qed

lemma files_reply [simp]: "files (reply m w) = files w"
  by (simp add: reply_def)

lemma files_log_error [simp]: "files (log_error p x w) = files w"
  by (simp add: log_error_def)

lemma send_text_chunks_files: "send_text_chunks t c w = (r, w') \<Longrightarrow> files w' = files w"
  by (auto simp: send_text_chunks_def split: if_splits)

lemma reply_document_files: "reply_document p n c w = (r, w') \<Longrightarrow> files w' = files w"
  by (auto simp: reply_document_def reply_def split: option.splits)

lemma save_as_docx_files:
  "save_as_docx e t n w = (r, w') \<Longrightarrow> k \<noteq> lit ''outputs/'' @ n \<Longrightarrow> files w' k = files w k"
  by (auto simp: save_as_docx_def Let_def split: option.splits)

lemma primary_choice_writes_txt:
  assumes "write_error e (lit ''outputs/'' @ text_key @ lit ''.txt'') = None"
  shows "files (snd (primary_choice e opt text_key T w))
           (lit ''outputs/'' @ text_key @ lit ''.txt'') = Some (Utf8 T)"
proof -
  let ?txt = "lit ''outputs/'' @ text_key @ lit ''.txt''"
  let ?w1 = "w\<lparr>files := (files w)(?txt \<mapsto> Utf8 T)\<rparr>"
  have wr: "write_text e ?txt T w = (Inr (), ?w1)"
    using assms by (simp add: write_text_def)
  have neq: "?txt \<noteq> lit ''outputs/'' @ (text_key @ lit ''.docx'')"
    by (simp add: lit_def)
  have docx: "files (snd (case save_as_docx e T (text_key @ lit ''.docx'') ?w1 of
                 (Inl x, w2) \<Rightarrow> (Inl x, w2)
               | (Inr docx_file_path, w2) \<Rightarrow> reply_document docx_file_path n c w2)) ?txt
              = Some (Utf8 T)" for n c
  proof (cases "save_as_docx e T (text_key @ lit ''.docx'') ?w1")
    case (Pair r w2)
    from save_as_docx_files [OF Pair neq] have w2: "files w2 ?txt = Some (Utf8 T)" by simp
    show ?thesis
    proof (cases r)
      case (Inl x)
      with Pair w2 show ?thesis by simp
    next
      case (Inr path)
      obtain r' w3 where rd: "reply_document path n c w2 = (r', w3)"
        by (cases "reply_document path n c w2") blast
      from reply_document_files [OF rd] Pair Inr w2 rd show ?thesis by simp
    qed
  qed
  have chunks: "files (snd (send_text_chunks t 4096 ?w1)) ?txt = Some (Utf8 T)" for t
    by (simp add: send_text_chunks_def)
  have rd: "files (snd (reply_document p n c w')) = files w'" for p n c w'
    by (simp add: reply_document_def reply_def split: option.splits)
  have both: "files (snd (case send_text_chunks t 4096 ?w1 of
                 (Inl x, w2) \<Rightarrow> (Inl x, w2)
               | (Inr u2, w2) \<Rightarrow> reply_document p n c w2)) ?txt = Some (Utf8 T)" for t p n c
    by (simp add: send_text_chunks_def rd)
  show ?thesis
    unfolding primary_choice_def Let_def wr
    by (simp add: chunks rd both docx del: append_assoc)
qed

lemma summary_choice_writes_txt:
  assumes "user_data w (summary_key text_key) = Some S" and "S \<noteq> []"
    and "write_error e (lit ''outputs/summary_'' @ text_key @ lit ''.txt'') = None"
  shows "files (snd (summary_choice e opt text_key w))
           (lit ''outputs/summary_'' @ text_key @ lit ''.txt'') = Some (Utf8 S)"
proof -
  let ?txt = "lit ''outputs/summary_'' @ text_key @ lit ''.txt''"
  let ?w1 = "w\<lparr>files := (files w)(?txt \<mapsto> Utf8 S)\<rparr>"
  have wr: "write_text e ?txt S w = (Inr (), ?w1)"
    using assms(3) by (simp add: write_text_def)
  have neq: "?txt \<noteq> lit ''outputs/'' @ (lit ''summary_'' @ text_key @ lit ''.docx'')"
    by (simp add: lit_def)
  have docx: "files (snd (case save_as_docx e S (lit ''summary_'' @ text_key @ lit ''.docx'')
                                ?w1 of
                 (Inl x, w2) \<Rightarrow> (Inl x, w2)
               | (Inr docx_file_path, w2) \<Rightarrow> reply_document docx_file_path n c w2)) ?txt
              = Some (Utf8 S)" for n c
  proof (cases "save_as_docx e S (lit ''summary_'' @ text_key @ lit ''.docx'') ?w1")
    case (Pair r w2)
    from save_as_docx_files [OF Pair neq] have w2: "files w2 ?txt = Some (Utf8 S)" by simp
    show ?thesis
    proof (cases r)
      case (Inl x)
      with Pair w2 show ?thesis by simp
    next
      case (Inr path)
      obtain r' w3 where rd: "reply_document path n c w2 = (r', w3)"
        by (cases "reply_document path n c w2") blast
      from reply_document_files [OF rd] Pair Inr w2 rd show ?thesis by simp
    qed
  qed
  have chunks: "files (snd (send_text_chunks t 4096 ?w1)) ?txt = Some (Utf8 S)" for t
    by (simp add: send_text_chunks_def)
  have rd: "files (snd (reply_document p n c w')) = files w'" for p n c w'
    by (simp add: reply_document_def reply_def split: option.splits)
  show ?thesis
    unfolding summary_choice_def Let_def
    using assms(1,2)
    by (simp add: wr chunks rd docx del: append_assoc)
qed

subsection \<open>What the handlers leave unchanged when sends can fail\<close>

lemma send_frame:
  "send tr m w = (r, w') \<Longrightarrow>
     user_data w' = user_data w \<and> files w' = files w \<and> logged w' = logged w
     \<and> remote_calls w' = remote_calls w"
  by (auto simp: send_def reply_def split: option.splits)

lemma send_chunks_frame:
  "send_chunks tr cs w = (r, w') \<Longrightarrow> user_data w' = user_data w \<and> files w' = files w"
proof (induction cs arbitrary: w)
  case Nil
  then show ?case by simp
next
  case (Cons c cs)
  obtain r1 w1 where s: "send tr (ReplyText c) w = (r1, w1)"
    by (cases "send tr (ReplyText c) w") blast
  from send_frame [OF s] have f: "user_data w1 = user_data w" "files w1 = files w" by simp_all
  show ?case
  proof (cases r1)
    case (Inl x)
    with Cons.prems s f show ?thesis by simp
  next
    case (Inr u)
    with Cons.prems s have "send_chunks tr cs w1 = (r, w')" by simp
    from Cons.IH [OF this] f show ?thesis by simp
  qed
qed

lemma send_text_chunks_tr_frame:
  "send_text_chunks_tr tr t c w = (r, w') \<Longrightarrow>
     user_data w' = user_data w \<and> files w' = files w"
  by (auto simp: send_text_chunks_tr_def split: if_splits dest: send_chunks_frame)

lemma reply_document_tr_frame:
  "reply_document_tr tr p n c w = (r, w') \<Longrightarrow>
     user_data w' = user_data w \<and> files w' = files w"
  by (auto simp: reply_document_tr_def split: option.splits dest: send_frame)

lemma write_text_files:
  "write_text e p t w = (r, w') \<Longrightarrow> k \<noteq> p \<Longrightarrow> files w' k = files w k"
  by (auto simp: write_text_def split: option.splits)

lemma send_output_options_tr_frame:
  assumes "send_output_options_tr tr e t w = (r, w')"
  shows "files w' = files w"
    and "k \<noteq> new_text_key e \<Longrightarrow> k \<noteq> file_path_key (new_text_key e) \<Longrightarrow>
           user_data w' k = user_data w k"
proof -
  let ?w1 = "w\<lparr>user_data := (user_data w)(new_text_key e \<mapsto> t)\<rparr>"
  let ?w2 = "case user_data ?w1 current_file_path of
               None \<Rightarrow> ?w1
             | Some p \<Rightarrow> ?w1\<lparr>user_data := (user_data ?w1)(file_path_key (new_text_key e) \<mapsto> p)\<rparr>"
  from assms have s: "send tr (ReplyMarkup choose_msg (output_keyboard (new_text_key e))) ?w2
      = (r, w')"
    by (simp add: send_output_options_tr_def Let_def)
  from send_frame [OF s] have f: "user_data w' = user_data ?w2" "files w' = files ?w2"
    by simp_all
  show "files w' = files w"
    by (cases "user_data ?w1 current_file_path") (simp_all add: f)
  show "user_data w' k = user_data w k"
    if "k \<noteq> new_text_key e" "k \<noteq> file_path_key (new_text_key e)"
    using that by (cases "user_data ?w1 current_file_path") (simp_all add: f)
qed

lemma handle_document_try_tr_frame:
  assumes "handle_document_try_tr tr e file_id file_name w = (r, w')"
  shows "p \<noteq> file_name \<Longrightarrow> files w' p = files w p"
    and "k \<noteq> current_file_path \<Longrightarrow> k \<noteq> new_text_key e \<Longrightarrow>
           k \<noteq> file_path_key (new_text_key e) \<Longrightarrow> user_data w' k = user_data w k"
proof -
  have both: "(p \<noteq> file_name \<longrightarrow> files w' p = files w p)
      \<and> (k \<noteq> current_file_path \<longrightarrow> k \<noteq> new_text_key e \<longrightarrow>
           k \<noteq> file_path_key (new_text_key e) \<longrightarrow> user_data w' k = user_data w k)"
  proof (cases "download e file_id")
    case (Inl x)
    with assms show ?thesis by (simp add: handle_document_try_tr_def)
  next
    case (Inr content)
    let ?w2 = "w\<lparr>files := (files w)(file_name \<mapsto> Bytes content),
                  user_data := (user_data w)(current_file_path \<mapsto> file_name)\<rparr>"
    obtain r3 w3 where s3: "send tr (ReplyText processing_msg) ?w2 = (r3, w3)"
      by (cases "send tr (ReplyText processing_msg) ?w2") blast
    from send_frame [OF s3] have f3: "user_data w3 = user_data ?w2" "files w3 = files ?w2"
      by simp_all
    show ?thesis
    proof (cases r3)
      case (Inl x)
      with assms Inr s3 have "w' = w3" by (simp add: handle_document_try_tr_def Let_def)
      with f3 show ?thesis by simp
    next
      case u: (Inr u)
      obtain r4 w4 where p4: "process_document e file_name w3 = (r4, w4)"
        by (cases "process_document e file_name w3") blast
      from process_document_frame [OF p4]
      have f4: "user_data w4 = user_data w3" "files w4 = files w3" by simp_all
      show ?thesis
      proof (cases r4)
        case (Inl x)
        with assms Inr s3 u p4 have "w' = w4"
          by (simp add: handle_document_try_tr_def Let_def)
        with f3 f4 show ?thesis by simp
      next
        case t: (Inr extracted_text)
        show ?thesis
        proof (cases "cross_mark \<in> set extracted_text")
          case True
          with assms Inr s3 u p4 t have "send tr (ReplyText extracted_text) w4 = (r, w')"
            by (simp add: handle_document_try_tr_def Let_def)
          from send_frame [OF this] f3 f4 show ?thesis by simp
        next
          case False
          with assms Inr s3 u p4 t
          have so: "send_output_options_tr tr e extracted_text w4 = (r, w')"
            by (simp add: handle_document_try_tr_def Let_def)
          from send_output_options_tr_frame [OF so] f3 f4 show ?thesis by simp
        qed
      qed
    qed
  qed
  from both show "p \<noteq> file_name \<Longrightarrow> files w' p = files w p" by blast
  from both show "k \<noteq> current_file_path \<Longrightarrow> k \<noteq> new_text_key e \<Longrightarrow>
           k \<noteq> file_path_key (new_text_key e) \<Longrightarrow> user_data w' k = user_data w k" by blast
qed

lemma summarize_choice_tr_frame:
  assumes "summarize_choice_tr tr e text_key w = (r, w')"
  shows "files w' = files w \<and> (k \<noteq> summary_key text_key \<longrightarrow> user_data w' k = user_data w k)"
proof -
  let ?fp = "case user_data w (file_path_key text_key) of None \<Rightarrow> [] | Some p \<Rightarrow> p"
  show ?thesis
  proof (cases "?fp = []")
    case True
    with assms have "send tr (ReplyText no_file_msg) w = (r, w')"
      by (simp add: summarize_choice_tr_def Let_def)
    from send_frame [OF this] show ?thesis by simp
  next
    case False
    obtain r0 w0 where s0: "send tr (ReplyText summarizing_msg) w = (r0, w0)"
      by (cases "send tr (ReplyText summarizing_msg) w") blast
    from send_frame [OF s0] have f0: "user_data w0 = user_data w" "files w0 = files w"
      by simp_all
    show ?thesis
    proof (cases r0)
      case (Inl x)
      with assms False s0 have "w' = w0" by (simp add: summarize_choice_tr_def Let_def)
      with f0 show ?thesis by simp
    next
      case u: (Inr u)
      obtain r1 w1 where d1: "summarize_document e ?fp w0 = (r1, w1)"
        by (cases "summarize_document e ?fp w0") blast
      from summarize_document_frame [OF d1]
      have f1: "user_data w1 = user_data w0" "files w1 = files w0" by simp_all
      show ?thesis
      proof (cases r1)
        case (Inl x)
        with assms False s0 u d1 have "w' = w1" by (simp add: summarize_choice_tr_def Let_def)
        with f0 f1 show ?thesis by simp
      next
        case sm: (Inr summary)
        show ?thesis
        proof (cases "cross_mark \<in> set summary")
          case True
          with assms False s0 u d1 sm have "send tr (ReplyText summary) w1 = (r, w')"
            by (simp add: summarize_choice_tr_def Let_def)
          from send_frame [OF this] f0 f1 show ?thesis by simp
        next
          case nocross: False
          with assms False s0 u d1 sm
          have "send tr (ReplyMarkup choose_summary_msg (summary_keyboard text_key))
                  (w1\<lparr>user_data := (user_data w1)(summary_key text_key \<mapsto> summary)\<rparr>) = (r, w')"
            by (simp add: summarize_choice_tr_def Let_def)
          from send_frame [OF this] f0 f1 show ?thesis by simp
        qed
      qed
    qed
  qed
qed

lemma docx_step_tr_frame:
  assumes "(case save_as_docx e t n w1 of
              (Inl x, w2) \<Rightarrow> (Inl x, w2)
            | (Inr docx_file_path, w2) \<Rightarrow> reply_document_tr tr docx_file_path fn cap w2)
           = (r, w')"
  shows "user_data w' = user_data w1
         \<and> (p \<noteq> lit ''outputs/'' @ n \<longrightarrow> files w' p = files w1 p)"
proof (cases "save_as_docx e t n w1")
  case (Pair r2 w2)
  from save_as_docx_files [OF Pair] save_as_docx_user_data [OF Pair]
  have f2: "user_data w2 = user_data w1"
    "p \<noteq> lit ''outputs/'' @ n \<longrightarrow> files w2 p = files w1 p" by auto
  show ?thesis
  proof (cases r2)
    case (Inl x)
    with assms Pair f2 show ?thesis by simp
  next
    case (Inr path)
    with assms Pair have "reply_document_tr tr path fn cap w2 = (r, w')" by simp
    from reply_document_tr_frame [OF this] f2 show ?thesis by simp
  qed
qed

lemma both_step_tr_frame:
  assumes "(case send_text_chunks_tr tr t 4096 w1 of
              (Inl x, w2) \<Rightarrow> (Inl x, w2)
            | (Inr u2, w2) \<Rightarrow> reply_document_tr tr path fn cap w2) = (r, w')"
  shows "user_data w' = user_data w1 \<and> files w' = files w1"
proof (cases "send_text_chunks_tr tr t 4096 w1")
  case (Pair r2 w2)
  from send_text_chunks_tr_frame [OF Pair]
  have f2: "user_data w2 = user_data w1" "files w2 = files w1" by simp_all
  show ?thesis
  proof (cases r2)
    case (Inl x)
    with assms Pair f2 show ?thesis by simp
  next
    case (Inr u)
    with assms Pair have "reply_document_tr tr path fn cap w2 = (r, w')" by simp
    from reply_document_tr_frame [OF this] f2 show ?thesis by simp
  qed
qed

lemma primary_choice_tr_frame:
  assumes "primary_choice_tr tr e opt text_key T w = (r, w')"
  shows "user_data w' = user_data w
         \<and> (p \<noteq> lit ''outputs/'' @ text_key @ lit ''.txt'' \<longrightarrow>
              p \<noteq> lit ''outputs/'' @ text_key @ lit ''.docx'' \<longrightarrow> files w' p = files w p)"
proof (cases "write_text e (lit ''outputs/'' @ text_key @ lit ''.txt'') T w")
  case (Pair r1 w1)
  from write_text_files [OF Pair] write_text_user_data [OF Pair]
  have f1: "user_data w1 = user_data w"
    "p \<noteq> lit ''outputs/'' @ text_key @ lit ''.txt'' \<longrightarrow> files w1 p = files w p" by auto
  show ?thesis
  proof (cases r1)
    case (Inl x)
    with assms Pair f1 show ?thesis by (simp add: primary_choice_tr_def Let_def)
  next
    case u: (Inr u)
    consider (msg) "opt = lit ''output_message''"
      | (txt1) "opt \<noteq> lit ''output_message''" "opt = lit ''output_txt''"
      | (both) "opt \<noteq> lit ''output_message''" "opt \<noteq> lit ''output_txt''"
               "opt = lit ''output_both''"
      | (docx) "opt \<noteq> lit ''output_message''" "opt \<noteq> lit ''output_txt''"
               "opt \<noteq> lit ''output_both''" "opt = lit ''output_docx''"
      | (other) "opt \<noteq> lit ''output_message''" "opt \<noteq> lit ''output_txt''"
               "opt \<noteq> lit ''output_both''" "opt \<noteq> lit ''output_docx''"
      by blast
    then show ?thesis
    proof cases
      case msg
      with assms Pair u
      have "send_text_chunks_tr tr (extracted_header @ T) 4096 w1 = (r, w')"
        by (simp add: primary_choice_tr_def Let_def)
      from send_text_chunks_tr_frame [OF this] f1 show ?thesis by simp
    next
      case txt1
      with assms Pair u
      have "reply_document_tr tr (lit ''outputs/'' @ text_key @ lit ''.txt'')
              (lit ''extracted_text.txt'')
              (128196 # lit '' Here is your extracted text file.'') w1 = (r, w')"
        by (simp add: primary_choice_tr_def Let_def)
      from reply_document_tr_frame [OF this] f1 show ?thesis by simp
    next
      case both
      with assms Pair u
      have "(case send_text_chunks_tr tr (extracted_header @ T) 4096 w1 of
              (Inl x, w2) \<Rightarrow> (Inl x, w2)
            | (Inr u2, w2) \<Rightarrow>
                reply_document_tr tr (lit ''outputs/'' @ text_key @ lit ''.txt'')
                  (lit ''extracted_text.txt'')
                  (128196 # lit '' Here is your extracted text file.'') w2) = (r, w')"
        by (simp add: primary_choice_tr_def Let_def)
      from both_step_tr_frame [OF this] f1 show ?thesis by simp
    next
      case docx
      with assms Pair u
      have "(case save_as_docx e T (text_key @ lit ''.docx'') w1 of
               (Inl x, w2) \<Rightarrow> (Inl x, w2)
             | (Inr docx_file_path, w2) \<Rightarrow>
                 reply_document_tr tr docx_file_path (lit ''extracted_text.docx'')
                   (128220 # lit '' Here is your extracted text as a Word document.'') w2)
            = (r, w')"
        by (simp add: primary_choice_tr_def Let_def)
      from docx_step_tr_frame [OF this, of p] f1 show ?thesis by (simp add: lit_def)
    next
      case other
      with assms Pair u have "send tr (ReplyText invalid_option_msg) w1 = (r, w')"
        by (simp add: primary_choice_tr_def Let_def)
      from send_frame [OF this] f1 show ?thesis by simp
    qed
  qed
qed

lemma summary_choice_tr_frame:
  assumes "summary_choice_tr tr e opt text_key w = (r, w')"
  shows "user_data w' = user_data w
         \<and> (p \<noteq> lit ''outputs/summary_'' @ text_key @ lit ''.txt'' \<longrightarrow>
              p \<noteq> lit ''outputs/summary_'' @ text_key @ lit ''.docx'' \<longrightarrow>
              files w' p = files w p)"
proof -
  let ?s = "case user_data w (summary_key text_key) of None \<Rightarrow> [] | Some s \<Rightarrow> s"
  show ?thesis
  proof (cases "?s = []")
    case True
    with assms have "send tr (ReplyText summary_retrieval_error_msg) w = (r, w')"
      by (simp add: summary_choice_tr_def Let_def)
    from send_frame [OF this] show ?thesis by simp
  next
    case False
    obtain r1 w1 where wr: "write_text e (lit ''outputs/summary_'' @ text_key @ lit ''.txt'')
        ?s w = (r1, w1)"
      by (cases "write_text e (lit ''outputs/summary_'' @ text_key @ lit ''.txt'') ?s w") blast
    from write_text_files [OF wr] write_text_user_data [OF wr]
    have f1: "user_data w1 = user_data w"
      "p \<noteq> lit ''outputs/summary_'' @ text_key @ lit ''.txt'' \<longrightarrow> files w1 p = files w p"
      by auto
    show ?thesis
    proof (cases r1)
      case (Inl x)
      with assms False wr f1 show ?thesis by (simp add: summary_choice_tr_def Let_def)
    next
      case u: (Inr u)
      consider (msg) "opt = lit ''summary_message''"
        | (txt1) "opt \<noteq> lit ''summary_message''" "opt = lit ''summary_txt''"
        | (docx) "opt \<noteq> lit ''summary_message''" "opt \<noteq> lit ''summary_txt''"
                 "opt = lit ''summary_docx''"
        | (other) "opt \<noteq> lit ''summary_message''" "opt \<noteq> lit ''summary_txt''"
                 "opt \<noteq> lit ''summary_docx''"
        by blast
      then show ?thesis
      proof cases
        case msg
        with assms False wr u
        have "send_text_chunks_tr tr (summary_header @ ?s) 4096 w1 = (r, w')"
          by (simp add: summary_choice_tr_def Let_def)
        from send_text_chunks_tr_frame [OF this] f1 show ?thesis by simp
      next
        case txt1
        with assms False wr u
        have "reply_document_tr tr (lit ''outputs/summary_'' @ text_key @ lit ''.txt'')
                (lit ''document_summary.txt'')
                (128196 # lit '' Here is your document summary.'') w1 = (r, w')"
          by (simp add: summary_choice_tr_def Let_def)
        from reply_document_tr_frame [OF this] f1 show ?thesis by simp
      next
        case docx
        with assms False wr u
        have "(case save_as_docx e ?s (lit ''summary_'' @ text_key @ lit ''.docx'') w1 of
                 (Inl x, w2) \<Rightarrow> (Inl x, w2)
               | (Inr docx_file_path, w2) \<Rightarrow>
                   reply_document_tr tr docx_file_path (lit ''document_summary.docx'')
                     (128220 # lit '' Here is your document summary as a Word document.'') w2)
              = (r, w')"
          by (simp add: summary_choice_tr_def Let_def)
        from docx_step_tr_frame [OF this, of p] f1 show ?thesis by (simp add: lit_def)
      next
        case other
        with assms False wr u have "w' = w1" by (simp add: summary_choice_tr_def Let_def)
        with f1 show ?thesis by simp
      qed
    qed
  qed
qed

lemma handle_output_choice_try_tr_frame:
  assumes "handle_output_choice_try_tr tr e q w = (r, w')"
  shows "(k \<noteq> summary_key (last (split_str 124 (data q))) \<longrightarrow> user_data w' k = user_data w k)
         \<and> (p \<noteq> lit ''outputs/'' @ last (split_str 124 (data q)) @ lit ''.txt'' \<longrightarrow>
              p \<noteq> lit ''outputs/'' @ last (split_str 124 (data q)) @ lit ''.docx'' \<longrightarrow>
              p \<noteq> lit ''outputs/summary_'' @ last (split_str 124 (data q)) @ lit ''.txt'' \<longrightarrow>
              p \<noteq> lit ''outputs/summary_'' @ last (split_str 124 (data q)) @ lit ''.docx'' \<longrightarrow>
              files w' p = files w p)"
proof (cases "\<exists>opt text_key. split_str 124 (data q) = [opt, text_key]")
  case False
  then have "handle_output_choice_try_tr tr e q w = (Inl ValueError, w)"
    by (auto simp: handle_output_choice_try_tr_def split: list.splits)
  with assms show ?thesis by simp
next
  case True
  then obtain opt text_key where sp: "split_str 124 (data q) = [opt, text_key]" by blast
  let ?t = "case user_data w text_key of None \<Rightarrow> [] | Some t \<Rightarrow> t"
  consider (miss) "?t = []"
    | (summarize) "?t \<noteq> []" "opt = lit ''output_summarize''"
    | (summary) "?t \<noteq> []" "opt \<noteq> lit ''output_summarize''" "startswith opt (lit ''summary_'')"
    | (primary) "?t \<noteq> []" "opt \<noteq> lit ''output_summarize''"
                "\<not> startswith opt (lit ''summary_'')"
    by blast
  then show ?thesis
  proof cases
    case miss
    with assms sp have "send tr (ReplyText retrieval_error_msg) w = (r, w')"
      by (simp add: handle_output_choice_try_tr_def Let_def)
    from send_frame [OF this] show ?thesis by simp
  next
    case summarize
    with assms sp have "summarize_choice_tr tr e text_key w = (r, w')"
      by (simp add: handle_output_choice_try_tr_def Let_def)
    from summarize_choice_tr_frame [OF this, of k] sp show ?thesis by simp
  next
    case summary
    with assms sp have "summary_choice_tr tr e opt text_key w = (r, w')"
      by (simp add: handle_output_choice_try_tr_def Let_def)
    from summary_choice_tr_frame [OF this, of p] sp show ?thesis by simp
  next
    case primary
    with assms sp have "primary_choice_tr tr e opt text_key ?t w = (r, w')"
      by (simp add: handle_output_choice_try_tr_def Let_def)
    from primary_choice_tr_frame [OF this, of p] sp show ?thesis by simp
  qed
qed

subsection \<open>The transport that accepts every message\<close>

text \<open>
  When no send is refused, the handlers over a transport are the handlers of the section on
  the workflow.
\<close>

lemma send_accept_all: "send accept_all m w = (Inr (), reply m w)"
  by (simp add: send_def accept_all_def)

lemma send_chunks_accept_all:
  "send_chunks accept_all cs w = (Inr (), w\<lparr>sent := sent w @ map ReplyText cs\<rparr>)"
  by (induction cs arbitrary: w) (simp_all add: send_accept_all reply_def)

lemma send_text_chunks_accept_all:
  "send_text_chunks_tr accept_all t c w = send_text_chunks t c w"
  by (simp add: send_text_chunks_tr_def send_text_chunks_def send_chunks_accept_all)

lemma reply_document_accept_all:
  "reply_document_tr accept_all p n c w = reply_document p n c w"
  by (simp add: reply_document_tr_def reply_document_def send_accept_all split: option.splits)

lemma send_output_options_accept_all:
  "send_output_options_tr accept_all e t w = (Inr (), send_output_options e t w)"
  by (simp add: send_output_options_tr_def send_output_options_def send_accept_all Let_def)

lemma handle_document_try_accept_all:
  "handle_document_try_tr accept_all e file_id file_name w
     = handle_document_try e file_id file_name w"
  by (simp add: handle_document_try_tr_def handle_document_try_def send_accept_all
        send_output_options_accept_all Let_def split: sum.splits prod.splits)

lemma handle_document_accept_all:
  "handle_document_tr accept_all e m w = handle_document e m w"
  by (simp add: handle_document_tr_def handle_document_def handle_document_try_accept_all
        send_accept_all split: sum.splits prod.splits)

lemma summarize_choice_accept_all:
  "summarize_choice_tr accept_all e text_key w = summarize_choice e text_key w"
  by (simp add: summarize_choice_tr_def summarize_choice_def send_accept_all Let_def
        split: sum.splits prod.splits)

lemma summary_choice_accept_all:
  "summary_choice_tr accept_all e opt text_key w = summary_choice e opt text_key w"
  by (simp add: summary_choice_tr_def summary_choice_def send_accept_all
        send_text_chunks_accept_all reply_document_accept_all Let_def
        cong: prod.case_cong sum.case_cong if_cong)

lemma primary_choice_accept_all:
  "primary_choice_tr accept_all e opt text_key t w = primary_choice e opt text_key t w"
  by (simp add: primary_choice_tr_def primary_choice_def send_accept_all
        send_text_chunks_accept_all reply_document_accept_all Let_def
        cong: prod.case_cong sum.case_cong if_cong)

lemma handle_output_choice_try_accept_all:
  "handle_output_choice_try_tr accept_all e q w = handle_output_choice_try e q w"
  by (simp add: handle_output_choice_try_tr_def handle_output_choice_try_def send_accept_all
        summarize_choice_accept_all summary_choice_accept_all primary_choice_accept_all
        Let_def split: list.splits)

lemma handle_output_choice_accept_all:
  "handle_output_choice_tr accept_all e q w = handle_output_choice e q w"
  by (simp add: handle_output_choice_tr_def handle_output_choice_def
        handle_output_choice_try_accept_all send_accept_all split: sum.splits prod.splits)

subsection \<open>The claims\<close>

text \<open>
  C1. For every non-empty text and every positive chunk size, \<^verbatim>\<open>send_text_chunks\<close>
  returns normally after sending exactly the chunks of the loop, in order, as text
  replies; the chunks concatenated in that order are the text; no chunk is longer than the
  chunk size; and the chunk number \<open>k\<close> is the slice of the text that starts at
  \<open>k * chunk_size\<close>, so the chunks are consecutive slices.
\<close>

theorem send_text_chunks_reassembles:
  assumes "T \<noteq> []" and "0 < C"
  shows "send_text_chunks T C w
           = (Inr (), w\<lparr>sent := sent w @ map ReplyText (chunk_loop 0 (nat C) T)\<rparr>)
         \<and> concat (chunk_loop 0 (nat C) T) = T
         \<and> (\<forall>x \<in> set (chunk_loop 0 (nat C) T). length x \<le> nat C)
         \<and> (\<forall>k < length (chunk_loop 0 (nat C) T).
               chunk_loop 0 (nat C) T ! k = take (nat C) (drop (k * nat C) T))"
proof -
  from assms(2) have pos: "0 < nat C" by simp
  have "send_text_chunks T C w
          = (Inr (), w\<lparr>sent := sent w @ map ReplyText (chunk_loop 0 (nat C) T)\<rparr>)"
    using assms(2) by (simp add: send_text_chunks_def)
  moreover have "concat (chunk_loop 0 (nat C) T) = T"
    using concat_chunk_loop [OF pos, of 0 T] by simp
  moreover have "\<forall>x \<in> set (chunk_loop 0 (nat C) T). length x \<le> nat C"
    using chunk_loop_bounded by blast
  moreover have "\<forall>k < length (chunk_loop 0 (nat C) T).
      chunk_loop 0 (nat C) T ! k = take (nat C) (drop (k * nat C) T)"
    using chunk_loop_nth [of _ 0 "nat C" T] by simp
  ultimately show ?thesis by blast
qed

theorem send_text_chunks_reassembles_witness:
  "[72, 101, 108, 108, 111] \<noteq> ([] :: ustr) \<and> (0 :: int) < 2
   \<and> send_text_chunks [72, 101, 108, 108, 111] 2 empty_world
       = (Inr (), empty_world\<lparr>sent := [ReplyText [72, 101], ReplyText [108, 108],
                                          ReplyText [111]]\<rparr>)
   \<and> concat (chunk_loop 0 2 [72, 101, 108, 108, 111 :: nat]) = [72, 101, 108, 108, 111]"
  using send_text_chunks_reassembles [of "[72, 101, 108, 108, 111]" 2 empty_world]
  by (simp add: chunk_loop.simps empty_world_def)

text \<open>
  C2. When the download succeeds, the path has a recognised suffix, the client is
  constructed and the extraction call returns a text that is empty or consists of
  white space only, \<^verbatim>\<open>handle_document\<close> returns normally and the user receives the
  processing acknowledgement followed by the "no text recognized" notice and nothing else: no
  menu. The extraction request is issued exactly once. The only entry of
  \<^verbatim>\<open>user_data\<close> that is written is \<^verbatim>\<open>current_file_path\<close>, which is not a session
  key, so no artifact is stored under any session key.
\<close>

theorem handle_document_empty_text:
  assumes "select_file m = Inr (file_id, file_name)"
    and "download e file_id = Inr content"
    and "client_error e = None"
    and "mime_type_of file_name = Some mime"
    and "remote e \<lparr>req_name = processor_path e (PROCESSOR_ID e),
                   req_content = Bytes content, req_mime_type = mime\<rparr> = Inr doc"
    and "strip (doc_text doc) = []"
  shows "handle_document e m w
           = (None,
              w\<lparr>user_data := (user_data w)(current_file_path \<mapsto> file_name),
                files := (files w)(file_name \<mapsto> Bytes content),
                sent := sent w @ [ReplyText processing_msg, ReplyText no_text_msg],
                remote_calls := remote_calls w
                  @ [\<lparr>req_name = processor_path e (PROCESSOR_ID e),
                      req_content = Bytes content, req_mime_type = mime\<rparr>]\<rparr>)
         \<and> (\<forall>k. is_session_key k \<longrightarrow>
               user_data (snd (handle_document e m w)) k = user_data w k)"
proof -
  have cross: "cross_mark \<in> set no_text_msg"
    by (simp add: no_text_msg_def)
  have run: "handle_document e m w
           = (None,
              w\<lparr>user_data := (user_data w)(current_file_path \<mapsto> file_name),
                files := (files w)(file_name \<mapsto> Bytes content),
                sent := sent w @ [ReplyText processing_msg, ReplyText no_text_msg],
                remote_calls := remote_calls w
                  @ [\<lparr>req_name = processor_path e (PROCESSOR_ID e),
                      req_content = Bytes content, req_mime_type = mime\<rparr>]\<rparr>)"
    using assms cross
    by (simp add: handle_document_def handle_document_try_def process_document_def
          client_process_document_def reply_def Let_def)
  have "\<forall>k. is_session_key k \<longrightarrow> user_data (snd (handle_document e m w)) k = user_data w k"
    using current_file_path_not_session_key by (auto simp: run)
  with run show ?thesis by blast
qed

theorem handle_document_empty_text_witness:
  "sent (snd (handle_document
           (example_env\<lparr>remote := \<lambda>r. Inr \<lparr>doc_text = [32, 10, 9], entities = []\<rparr>\<rparr>)
           photo_message empty_world))
     = [ReplyText processing_msg, ReplyText no_text_msg]
   \<and> user_data (snd (handle_document
           (example_env\<lparr>remote := \<lambda>r. Inr \<lparr>doc_text = [32, 10, 9], entities = []\<rparr>\<rparr>)
           photo_message empty_world))
     = [current_file_path \<mapsto> lit ''downloads/p1.jpg'']"
  using handle_document_empty_text
    [of photo_message "lit ''p1''" "lit ''downloads/p1.jpg''"
        "example_env\<lparr>remote := \<lambda>r. Inr \<lparr>doc_text = [32, 10, 9], entities = []\<rparr>\<rparr>"
        "[1, 2, 3]" "lit ''image/jpeg''" "\<lparr>doc_text = [32, 10, 9], entities = []\<rparr>"
        empty_world]
  by (simp add: example_env_def photo_message_def empty_world_def select_file_def
        mime_type_of_def endswith_def strip_def is_space_def lit_def)



text \<open>
  C4. The summary text that \<^verbatim>\<open>summarize_document\<close> forms from a processing result is
  the concatenation, in document order, of the mention text of every entity whose type
  is \<open>summary\<close>, each followed by a newline; when there is no such entity it is the
  whole-document text. When the call reaches the processor, the function returns that
  summary text, unless it is empty or white space, in which case it returns the "no
  summary" notice. The entities \<open>summary: A\<close>, \<open>summary: B\<close> give the text
  A, newline, B, newline.
\<close>

theorem summarize_document_summary_text:
  "summary_text doc
     = (if \<exists>en \<in> set (entities doc). ent_type en = lit ''summary''
        then concat (map (\<lambda>en. mention_text en @ [10])
                      (filter (\<lambda>en. ent_type en = lit ''summary'') (entities doc)))
        else doc_text doc)
   \<and> (client_error e = None \<longrightarrow> files w p = Some content \<longrightarrow> mime_type_of p = Some mime
        \<longrightarrow> remote e \<lparr>req_name = processor_path e (SUMMARIZER_PROCESSOR_ID e),
                      req_content = content, req_mime_type = mime\<rparr> = Inr doc
        \<longrightarrow> fst (summarize_document e p w)
              = Inr (if strip (summary_text doc) \<noteq> [] then summary_text doc
                     else no_summary_msg))
   \<and> summary_text
        \<lparr>doc_text = t,
         entities = [\<lparr>ent_type = lit ''summary'', mention_text = [65]\<rparr>,
                     \<lparr>ent_type = lit ''summary'', mention_text = [66]\<rparr>]\<rparr>
       = [65, 10, 66, 10]"
proof -
  have "summary_text doc
     = (if \<exists>en \<in> set (entities doc). ent_type en = lit ''summary''
        then concat (map (\<lambda>en. mention_text en @ [10])
                      (filter (\<lambda>en. ent_type en = lit ''summary'') (entities doc)))
        else doc_text doc)"
    by (auto simp: summary_text_def Let_def summary_loop_acc filter_empty_conv)
  moreover have "client_error e = None \<longrightarrow> files w p = Some content
        \<longrightarrow> mime_type_of p = Some mime
        \<longrightarrow> remote e \<lparr>req_name = processor_path e (SUMMARIZER_PROCESSOR_ID e),
                      req_content = content, req_mime_type = mime\<rparr> = Inr doc
        \<longrightarrow> fst (summarize_document e p w)
              = Inr (if strip (summary_text doc) \<noteq> [] then summary_text doc
                     else no_summary_msg)"
    by (simp add: summarize_document_def client_process_document_def Let_def)
  moreover have "summary_text
        \<lparr>doc_text = t,
         entities = [\<lparr>ent_type = lit ''summary'', mention_text = [65]\<rparr>,
                     \<lparr>ent_type = lit ''summary'', mention_text = [66]\<rparr>]\<rparr>
       = [65, 10, 66, 10]"
    by (simp add: summary_text_def Let_def)
  ultimately show ?thesis by blast
qed

theorem summarize_document_summary_text_witness:
  "fst (summarize_document
          (example_env\<lparr>remote := \<lambda>r. Inr
             \<lparr>doc_text = lit ''whole text'',
              entities = [\<lparr>ent_type = lit ''summary'', mention_text = [65]\<rparr>,
                          \<lparr>ent_type = lit ''title'', mention_text = [67]\<rparr>,
                          \<lparr>ent_type = lit ''summary'', mention_text = [66]\<rparr>]\<rparr>\<rparr>)
          (lit ''downloads/a.pdf'')
          (empty_world\<lparr>files := [lit ''downloads/a.pdf'' \<mapsto> Bytes [1]]\<rparr>))
     = Inr [65, 10, 66, 10]"
  using summarize_document_summary_text
    [of "\<lparr>doc_text = lit ''whole text'',
              entities = [\<lparr>ent_type = lit ''summary'', mention_text = [65]\<rparr>,
                          \<lparr>ent_type = lit ''title'', mention_text = [67]\<rparr>,
                          \<lparr>ent_type = lit ''summary'', mention_text = [66]\<rparr>]\<rparr>"
        "example_env\<lparr>remote := \<lambda>r. Inr
             \<lparr>doc_text = lit ''whole text'',
              entities = [\<lparr>ent_type = lit ''summary'', mention_text = [65]\<rparr>,
                          \<lparr>ent_type = lit ''title'', mention_text = [67]\<rparr>,
                          \<lparr>ent_type = lit ''summary'', mention_text = [66]\<rparr>]\<rparr>\<rparr>"
        "empty_world\<lparr>files := [lit ''downloads/a.pdf'' \<mapsto> Bytes [1]]\<rparr>"
        "lit ''downloads/a.pdf''" "Bytes [1]" "lit ''application/pdf''"]
  by (simp add: example_env_def empty_world_def mime_type_of_def endswith_def strip_def
        is_space_def lit_def)

text \<open>
  C5. The key of a summary is the fixed prefix \<open>summary_\<close> followed by the parent key.
  It is a function of the parent key, it is injective, and for two keys of eight
  characters the summary key of one is never the other. The summarization branch writes
  \<^verbatim>\<open>user_data\<close> at that key only, so storing a summary leaves every primary artifact
  as it was.
\<close>

theorem summary_key_derivation:
  "summary_key K = lit ''summary_'' @ K
   \<and> (summary_key K1 = summary_key K2 \<longleftrightarrow> K1 = K2)
   \<and> (length K1 = 8 \<longrightarrow> length K2 = 8 \<longrightarrow> summary_key K1 \<noteq> K2)
   \<and> (\<forall>k. k \<noteq> summary_key K \<longrightarrow>
          user_data (snd (summarize_choice e K w)) k = user_data w k)"
proof -
  have "length K1 = 8 \<longrightarrow> length K2 = 8 \<longrightarrow> summary_key K1 \<noteq> K2"
    by (auto simp: summary_key_def lit_def)
  moreover have "\<forall>k. k \<noteq> summary_key K \<longrightarrow>
      user_data (snd (summarize_choice e K w)) k = user_data w k"
    using summarize_choice_user_data [of e K w] by (metis prod.collapse)
  ultimately show ?thesis by (simp add: summary_key_def)
qed

theorem summary_key_derivation_witness:
  "length (lit ''ab12cd34'') = 8 \<and> length (lit ''deadbeef'') = 8
   \<and> summary_key (lit ''ab12cd34'') = lit ''summary_ab12cd34''
   \<and> summary_key (lit ''ab12cd34'') \<noteq> lit ''deadbeef''
   \<and> summary_key (lit ''ab12cd34'') \<noteq> summary_key (lit ''deadbeef'')"
  using summary_key_derivation
    [of "lit ''ab12cd34''" "lit ''ab12cd34''" "lit ''deadbeef''" example_env empty_world]
  by (simp add: lit_def summary_key_def)

text \<open>
  C6, as the code has it. For a path with none of the recognised suffixes, once the
  client is constructed and the file is read (both precede the suffix check),
  \<^verbatim>\<open>process_document\<close> and \<^verbatim>\<open>summarize_document\<close> return the "Unsupported file
  format" notice and leave the state as it was: no request is issued. In
  \<^verbatim>\<open>handle_document\<close> the notice is sent to the user after the processing
  acknowledgement and no request is issued, but the request has changed the state before
  the check: the download is on disk and \<^verbatim>\<open>user_data["current_file_path"]\<close> names it.
  No other entry of \<^verbatim>\<open>user_data\<close> changes.
\<close>

theorem unsupported_format_short_circuit:
  assumes "mime_type_of file_path = None" and "client_error e = None"
  shows "(files w file_path = Some content \<longrightarrow>
            process_document e file_path w = (Inr unsupported_msg, w)
            \<and> summarize_document e file_path w = (Inr unsupported_msg, w))
         \<and> (select_file m = Inr (file_id, file_path) \<longrightarrow> download e file_id = Inr bytes \<longrightarrow>
              handle_document e m w
                = (None,
                   w\<lparr>user_data := (user_data w)(current_file_path \<mapsto> file_path),
                     files := (files w)(file_path \<mapsto> Bytes bytes),
                     sent := sent w @ [ReplyText processing_msg, ReplyText unsupported_msg]\<rparr>)
              \<and> remote_calls (snd (handle_document e m w)) = remote_calls w
              \<and> (\<forall>k. k \<noteq> current_file_path \<longrightarrow>
                    user_data (snd (handle_document e m w)) k = user_data w k))"
proof -
  have cross: "cross_mark \<in> set unsupported_msg"
    by (simp add: unsupported_msg_def)
  have "files w file_path = Some content \<longrightarrow>
            process_document e file_path w = (Inr unsupported_msg, w)
            \<and> summarize_document e file_path w = (Inr unsupported_msg, w)"
    using assms by (simp add: process_document_def summarize_document_def)
  moreover have "select_file m = Inr (file_id, file_path) \<longrightarrow> download e file_id = Inr bytes \<longrightarrow>
              handle_document e m w
                = (None,
                   w\<lparr>user_data := (user_data w)(current_file_path \<mapsto> file_path),
                     files := (files w)(file_path \<mapsto> Bytes bytes),
                     sent := sent w @ [ReplyText processing_msg, ReplyText unsupported_msg]\<rparr>)"
    using assms cross
    by (simp add: handle_document_def handle_document_try_def process_document_def
          reply_def Let_def)
  ultimately show ?thesis by simp
qed

theorem unsupported_format_short_circuit_witness:
  "mime_type_of (lit ''downloads/notes.txt'') = None \<and> client_error example_env = None
   \<and> handle_document example_env text_file_message empty_world
       = (None,
          empty_world
            \<lparr>user_data := [current_file_path \<mapsto> lit ''downloads/notes.txt''],
             files := [lit ''downloads/notes.txt'' \<mapsto> Bytes [1, 2, 3]],
             sent := [ReplyText processing_msg, ReplyText unsupported_msg]\<rparr>)"
  using unsupported_format_short_circuit
    [of "lit ''downloads/notes.txt''" example_env empty_world "Bytes []" text_file_message
        "lit ''d1''" "[1, 2, 3]"]
  by (simp add: example_env_def text_file_message_def empty_world_def select_file_def
        mime_type_of_def endswith_def lit_def)

text \<open>
  The claim that an unsupported-format request mutates no state fails for a document
  named \<open>notes.txt\<close>: before the event there is neither a \<^verbatim>\<open>current_file_path\<close> entry
  nor a downloaded file, after it there are both.
\<close>

theorem unsupported_format_mutates_state:
  "mime_type_of (lit ''downloads/notes.txt'') = None
   \<and> select_file text_file_message = Inr (lit ''d1'', lit ''downloads/notes.txt'')
   \<and> user_data empty_world current_file_path = None
   \<and> user_data (snd (handle_document example_env text_file_message empty_world))
        current_file_path = Some (lit ''downloads/notes.txt'')
   \<and> files empty_world (lit ''downloads/notes.txt'') = None
   \<and> files (snd (handle_document example_env text_file_message empty_world))
        (lit ''downloads/notes.txt'') = Some (Bytes [1, 2, 3])"
  by (simp add: example_env_def text_file_message_def empty_world_def select_file_def
        mime_type_of_def endswith_def lit_def handle_document_def handle_document_try_def
        process_document_def reply_def Let_def unsupported_msg_def cross_mark_def
        current_file_path_def)

text \<open>
  C7, as the code has it. Let \<open>K\<close> be a session key, that is, eight hexadecimal digits,
  the form of every key that \<^verbatim>\<open>send_output_options\<close> mints. No callback handled by
  \<^verbatim>\<open>handle_output_choice\<close> changes what \<^verbatim>\<open>user_data\<close> holds at \<open>K\<close>, whatever
  its data and whatever the collaborators answer: the only entry it writes is the summary
  key of the callback's key, which is never a session key. A later upload handled by
  \<^verbatim>\<open>handle_document\<close> leaves the entry at \<open>K\<close> unchanged whenever the key it
  mints differs from \<open>K\<close>; the handler does not check that the key is new.
\<close>

theorem primary_text_immutable:
  assumes "is_session_key K"
  shows "user_data (snd (handle_output_choice e q w)) K = user_data w K
         \<and> (new_text_key e \<noteq> K \<longrightarrow>
              user_data (snd (handle_document e m w)) K = user_data w K)"
proof -
  obtain r w1 where body: "handle_output_choice_try e q (reply AnswerCallback w) = (r, w1)"
    by (cases "handle_output_choice_try e q (reply AnswerCallback w)") blast
  from handle_output_choice_try_session_key [OF body assms]
  have "user_data w1 K = user_data w K" by simp
  with body have choice: "user_data (snd (handle_output_choice e q w)) K = user_data w K"
    by (cases r) (simp_all add: handle_output_choice_def)
  have "user_data (snd (handle_document e m w)) K = user_data w K" if fresh: "new_text_key e \<noteq> K"
  proof (cases "select_file m")
    case (Inl x)
    then show ?thesis by (simp add: handle_document_def)
  next
    case (Inr p)
    obtain file_id file_name where p: "p = (file_id, file_name)" by (cases p) blast
    obtain r' w2 where body2: "handle_document_try e file_id file_name w = (r', w2)"
      by (cases "handle_document_try e file_id file_name w") blast
    have "K \<noteq> current_file_path"
      using assms current_file_path_not_session_key by blast
    moreover have "K \<noteq> file_path_key (new_text_key e)"
      using assms file_path_key_not_session_key by blast
    ultimately have "user_data w2 K = user_data w K"
      using handle_document_try_user_data [OF body2] fresh by blast
    with Inr p body2 show ?thesis
      by (cases r') (simp_all add: handle_document_def)
  qed
  with choice show ?thesis by blast
qed

theorem primary_text_immutable_witness:
  "is_session_key (lit ''ab12cd34'') \<and> new_text_key example_env \<noteq> lit ''ab12cd34''
   \<and> user_data (snd (handle_output_choice example_env
                        \<lparr>data = lit ''output_summarize|ab12cd34''\<rparr>
                        (empty_world\<lparr>user_data := [lit ''ab12cd34'' \<mapsto> lit ''old text'']\<rparr>)))
        (lit ''ab12cd34'') = Some (lit ''old text'')
   \<and> user_data (snd (handle_document example_env photo_message
                        (empty_world\<lparr>user_data := [lit ''ab12cd34'' \<mapsto> lit ''old text'']\<rparr>)))
        (lit ''ab12cd34'') = Some (lit ''old text'')"
proof -
  have key: "is_session_key (lit ''ab12cd34'')"
    by (simp add: is_session_key_def is_hex_digit_def lit_def)
  have fresh: "new_text_key example_env \<noteq> lit ''ab12cd34''"
    by (simp add: new_text_key_example lit_eq_iff)
  show ?thesis
    using key fresh primary_text_immutable
      [OF key, of example_env "\<lparr>data = lit ''output_summarize|ab12cd34''\<rparr>"
         "empty_world\<lparr>user_data := [lit ''ab12cd34'' \<mapsto> lit ''old text'']\<rparr>" photo_message]
    by simp
qed

text \<open>
  The claim that no later upload changes the text stored at \<open>K\<close> fails when the upload
  mints the key \<open>K\<close> again: with \<open>old text\<close> stored under \<open>1b4e28ba\<close> and an upload
  whose identifier starts with the same eight digits, the entry becomes \<open>Hello world\<close>.
\<close>

theorem later_upload_overwrites_primary_text:
  "is_session_key (lit ''1b4e28ba'')
   \<and> user_data (empty_world\<lparr>user_data := [lit ''1b4e28ba'' \<mapsto> lit ''old text'']\<rparr>)
        (lit ''1b4e28ba'') = Some (lit ''old text'')
   \<and> user_data (snd (handle_document example_env photo_message
                        (empty_world\<lparr>user_data := [lit ''1b4e28ba'' \<mapsto> lit ''old text'']\<rparr>)))
        (lit ''1b4e28ba'') = Some (lit ''Hello world'')"
proof -
  have key: "is_session_key (lit ''1b4e28ba'')"
    by (simp add: is_session_key_def is_hex_digit_def lit_def)
  have mime: "mime_type_of (lit ''downloads/p1.jpg'') = Some (lit ''image/jpeg'')"
    by (simp add: mime_type_of_def endswith_def lit_def)
  have hello: "strip (lit ''Hello world'') \<noteq> []" "cross_mark \<notin> set (lit ''Hello world'')"
    by (simp_all add: strip_def is_space_def lit_def cross_mark_def)
  have sel: "select_file photo_message = Inr (lit ''p1'', lit ''downloads/p1.jpg'')"
    by (simp add: select_file_def photo_message_def lit_def)
  have env: "download example_env (lit ''p1'') = Inr [1, 2, 3]"
    "client_error example_env = None"
    "\<And>r. remote example_env r = Inr \<lparr>doc_text = lit ''Hello world'', entities = []\<rparr>"
    by (simp_all add: example_env_def)
  have proc: "process_document example_env (lit ''downloads/p1.jpg'') w
      = (Inr (lit ''Hello world''),
         w\<lparr>remote_calls := remote_calls w
             @ [\<lparr>req_name = processor_path example_env (PROCESSOR_ID example_env),
                 req_content = c, req_mime_type = lit ''image/jpeg''\<rparr>]\<rparr>)"
    if "files w (lit ''downloads/p1.jpg'') = Some c" for w c
    using that mime hello env
    by (simp add: process_document_def client_process_document_def Let_def)
  have "user_data (snd (handle_document example_env photo_message
                        (empty_world\<lparr>user_data := [lit ''1b4e28ba'' \<mapsto> lit ''old text'']\<rparr>)))
        (lit ''1b4e28ba'') = Some (lit ''Hello world'')"
    using hello env file_path_key_not_session_key [OF key, of "lit ''1b4e28ba''"]
      file_path_key_not_session_key [OF key, of "lit ''1b4e28ba''", symmetric]
    by (simp add: handle_document_def sel handle_document_try_def proc
          send_output_options_def new_text_key_example reply_def Let_def
          split: option.splits)
  with key show ?thesis by (simp add: empty_world_def)
qed

text \<open>
  C9. The text that \<^verbatim>\<open>process_document\<close> returns is the extracted text, or the "no
  text" notice when the extraction is empty or white space. When it does not contain the
  cross mark, \<^verbatim>\<open>handle_document\<close> stores it under the new key and presents the output
  menu; when it contains the cross mark, the handler sends the text itself as a reply,
  presents no menu and stores nothing but \<^verbatim>\<open>current_file_path\<close>. The summarization
  choice does the same with the text that \<^verbatim>\<open>summarize_document\<close> returns: without
  the cross mark it is stored under the summary key and the summary menu is presented,
  with the cross mark it is sent as a reply and \<^verbatim>\<open>user_data\<close> is left as it was. So
  an extracted text or a summary that is not a notice but contains the cross mark is
  treated as a failure and never stored.
\<close>

theorem in_band_error_signalling:
  assumes "client_error e = None"
  shows
   "(select_file m = Inr (file_id, file_name) \<longrightarrow> download e file_id = Inr bytes \<longrightarrow>
     mime_type_of file_name = Some mime \<longrightarrow>
     remote e \<lparr>req_name = processor_path e (PROCESSOR_ID e),
                req_content = Bytes bytes, req_mime_type = mime\<rparr> = Inr doc \<longrightarrow>
     t = (if strip (doc_text doc) \<noteq> [] then doc_text doc else no_text_msg) \<longrightarrow>
       (cross_mark \<notin> set t \<longrightarrow>
          user_data (snd (handle_document e m w)) (new_text_key e) = Some t
          \<and> sent (snd (handle_document e m w))
              = sent w @ [ReplyText processing_msg,
                          ReplyMarkup choose_msg (output_keyboard (new_text_key e))])
       \<and> (cross_mark \<in> set t \<longrightarrow>
            sent (snd (handle_document e m w))
              = sent w @ [ReplyText processing_msg, ReplyText t]
            \<and> (\<forall>k. k \<noteq> current_file_path \<longrightarrow>
                  user_data (snd (handle_document e m w)) k = user_data w k)))
    \<and> (124 \<notin> set text_key \<longrightarrow> user_data w text_key = Some T \<longrightarrow> T \<noteq> [] \<longrightarrow>
        user_data w (file_path_key text_key) = Some p \<longrightarrow> p \<noteq> [] \<longrightarrow>
        files w p = Some content \<longrightarrow> mime_type_of p = Some mime' \<longrightarrow>
        remote e \<lparr>req_name = processor_path e (SUMMARIZER_PROCESSOR_ID e),
                   req_content = content, req_mime_type = mime'\<rparr> = Inr sdoc \<longrightarrow>
        s = (if strip (summary_text sdoc) \<noteq> [] then summary_text sdoc else no_summary_msg) \<longrightarrow>
          (cross_mark \<notin> set s \<longrightarrow>
             user_data (snd (handle_output_choice e
                               \<lparr>data = lit ''output_summarize|'' @ text_key\<rparr> w))
               = (user_data w)(summary_key text_key \<mapsto> s)
             \<and> sent (snd (handle_output_choice e
                             \<lparr>data = lit ''output_summarize|'' @ text_key\<rparr> w))
                 = sent w @ [AnswerCallback, ReplyText summarizing_msg,
                             ReplyMarkup choose_summary_msg (summary_keyboard text_key)])
          \<and> (cross_mark \<in> set s \<longrightarrow>
               user_data (snd (handle_output_choice e
                                 \<lparr>data = lit ''output_summarize|'' @ text_key\<rparr> w))
                 = user_data w
               \<and> sent (snd (handle_output_choice e
                               \<lparr>data = lit ''output_summarize|'' @ text_key\<rparr> w))
                   = sent w @ [AnswerCallback, ReplyText summarizing_msg, ReplyText s]))"
proof -
  have doc_part: "(cross_mark \<notin> set t \<longrightarrow>
          user_data (snd (handle_document e m w)) (new_text_key e) = Some t
          \<and> sent (snd (handle_document e m w))
              = sent w @ [ReplyText processing_msg,
                          ReplyMarkup choose_msg (output_keyboard (new_text_key e))])
       \<and> (cross_mark \<in> set t \<longrightarrow>
            sent (snd (handle_document e m w))
              = sent w @ [ReplyText processing_msg, ReplyText t]
            \<and> (\<forall>k. k \<noteq> current_file_path \<longrightarrow>
                  user_data (snd (handle_document e m w)) k = user_data w k))"
    if sel: "select_file m = Inr (file_id, file_name)"
      and dl: "download e file_id = Inr bytes"
      and mime: "mime_type_of file_name = Some mime"
      and rem: "remote e \<lparr>req_name = processor_path e (PROCESSOR_ID e),
                req_content = Bytes bytes, req_mime_type = mime\<rparr> = Inr doc"
      and t: "t = (if strip (doc_text doc) \<noteq> [] then doc_text doc else no_text_msg)"
  proof -
    define w4 where "w4 =
      w\<lparr>files := (files w)(file_name \<mapsto> Bytes bytes),
        user_data := (user_data w)(current_file_path \<mapsto> file_name),
        sent := sent w @ [ReplyText processing_msg],
        remote_calls := remote_calls w
          @ [\<lparr>req_name = processor_path e (PROCESSOR_ID e),
              req_content = Bytes bytes, req_mime_type = mime\<rparr>]\<rparr>"
    have run: "handle_document e m w
        = (None, if cross_mark \<in> set t then reply (ReplyText t) w4
                 else send_output_options e t w4)"
      using assms sel dl mime rem t
      by (simp add: handle_document_def handle_document_try_def process_document_def
            client_process_document_def reply_def Let_def w4_def)
    show ?thesis
      by (simp add: run send_output_options_stores sent_send_output_options)
         (simp add: w4_def reply_def)
  qed
  have sum_part: "(cross_mark \<notin> set s \<longrightarrow>
             user_data (snd (handle_output_choice e
                               \<lparr>data = lit ''output_summarize|'' @ text_key\<rparr> w))
               = (user_data w)(summary_key text_key \<mapsto> s)
             \<and> sent (snd (handle_output_choice e
                             \<lparr>data = lit ''output_summarize|'' @ text_key\<rparr> w))
                 = sent w @ [AnswerCallback, ReplyText summarizing_msg,
                             ReplyMarkup choose_summary_msg (summary_keyboard text_key)])
          \<and> (cross_mark \<in> set s \<longrightarrow>
               user_data (snd (handle_output_choice e
                                 \<lparr>data = lit ''output_summarize|'' @ text_key\<rparr> w))
                 = user_data w
               \<and> sent (snd (handle_output_choice e
                               \<lparr>data = lit ''output_summarize|'' @ text_key\<rparr> w))
                   = sent w @ [AnswerCallback, ReplyText summarizing_msg, ReplyText s])"
    if key: "124 \<notin> set text_key" and txt1: "user_data w text_key = Some T" "T \<noteq> []"
      and path: "user_data w (file_path_key text_key) = Some p" "p \<noteq> []"
      and fl: "files w p = Some content" and mime: "mime_type_of p = Some mime'"
      and rem: "remote e \<lparr>req_name = processor_path e (SUMMARIZER_PROCESSOR_ID e),
                   req_content = content, req_mime_type = mime'\<rparr> = Inr sdoc"
      and s: "s = (if strip (summary_text sdoc) \<noteq> [] then summary_text sdoc
                   else no_summary_msg)"
  proof -
    have sd: "summarize_document e p w' = (Inr s, w'\<lparr>remote_calls := remote_calls w'
          @ [\<lparr>req_name = processor_path e (SUMMARIZER_PROCESSOR_ID e),
              req_content = content, req_mime_type = mime'\<rparr>]\<rparr>)"
      if "files w' p = Some content" for w'
      using that assms mime rem s
      by (simp add: summarize_document_def client_process_document_def Let_def)
    have choice: "summarize_choice e text_key (reply AnswerCallback w)
        = (Inr (),
           if cross_mark \<in> set s
           then w\<lparr>sent := sent w @ [AnswerCallback, ReplyText summarizing_msg, ReplyText s],
                  remote_calls := remote_calls w
                    @ [\<lparr>req_name = processor_path e (SUMMARIZER_PROCESSOR_ID e),
                        req_content = content, req_mime_type = mime'\<rparr>]\<rparr>
           else w\<lparr>user_data := (user_data w)(summary_key text_key \<mapsto> s),
                  sent := sent w @ [AnswerCallback, ReplyText summarizing_msg,
                            ReplyMarkup choose_summary_msg (summary_keyboard text_key)],
                  remote_calls := remote_calls w
                    @ [\<lparr>req_name = processor_path e (SUMMARIZER_PROCESSOR_ID e),
                        req_content = content, req_mime_type = mime'\<rparr>]\<rparr>)"
      using path fl
      by (simp add: summarize_choice_def Let_def sd reply_def)
    have "handle_output_choice_try e \<lparr>data = lit ''output_summarize|'' @ text_key\<rparr>
            (reply AnswerCallback w) = summarize_choice e text_key (reply AnswerCallback w)"
      using txt1 by (simp add: handle_output_choice_try_def summarize_split [OF key] Let_def)
    then show ?thesis
      by (simp add: handle_output_choice_def choice)
  qed
  show ?thesis
    apply (rule conjI)
    subgoal by (intro impI, rule doc_part; assumption)
    subgoal by (intro impI, rule sum_part; assumption)
    done
qed

theorem in_band_error_signalling_witness:
  "client_error cross_mark_env = None
   \<and> cross_mark \<in> set (lit ''Exit '' @ cross_mark # lit '' closed'')
   \<and> strip (lit ''Exit '' @ cross_mark # lit '' closed'') \<noteq> []
   \<and> sent (snd (handle_document cross_mark_env photo_message empty_world))
       = [ReplyText processing_msg, ReplyText (lit ''Exit '' @ cross_mark # lit '' closed'')]
   \<and> user_data (snd (handle_document cross_mark_env photo_message empty_world))
        (new_text_key cross_mark_env) = None"
proof -
  let ?t = "lit ''Exit '' @ cross_mark # lit '' closed''"
  let ?doc = "\<lparr>doc_text = ?t, entities = []\<rparr>"
  have cl: "client_error cross_mark_env = None"
    by (simp add: cross_mark_env_def example_env_def)
  have sel: "select_file photo_message = Inr (lit ''p1'', lit ''downloads/p1.jpg'')"
    by (simp add: select_file_def photo_message_def lit_def)
  have dl: "download cross_mark_env (lit ''p1'') = Inr [1, 2, 3]"
    by (simp add: cross_mark_env_def example_env_def)
  have mime: "mime_type_of (lit ''downloads/p1.jpg'') = Some (lit ''image/jpeg'')"
    by (simp add: mime_type_of_def endswith_def lit_def)
  have rem: "remote cross_mark_env
               \<lparr>req_name = processor_path cross_mark_env (PROCESSOR_ID cross_mark_env),
                req_content = Bytes [1, 2, 3], req_mime_type = lit ''image/jpeg''\<rparr>
             = Inr ?doc"
    by (simp add: cross_mark_env_def)
  have st: "strip ?t \<noteq> []"
    by (simp add: strip_def is_space_def lit_def cross_mark_def)
  have teq: "?t = (if strip (doc_text ?doc) \<noteq> [] then doc_text ?doc else no_text_msg)"
    using st by simp
  have cross: "cross_mark \<in> set ?t" by simp
  have key: "new_text_key cross_mark_env \<noteq> current_file_path"
    using new_text_key_is_session_key [of cross_mark_env] current_file_path_not_session_key
    by auto
  note inst = in_band_error_signalling [OF cl, of photo_message "lit ''p1''"
      "lit ''downloads/p1.jpg''" "[1, 2, 3]" "lit ''image/jpeg''" ?doc ?t empty_world]
  note doc = inst [THEN conjunct1, THEN mp, OF sel, THEN mp, OF dl, THEN mp, OF mime,
      THEN mp, OF rem, THEN mp, OF teq]
  note fail = doc [THEN conjunct2, THEN mp, OF cross]
  from fail key have "user_data (snd (handle_document cross_mark_env photo_message empty_world))
        (new_text_key cross_mark_env) = user_data empty_world (new_text_key cross_mark_env)"
    by blast
  with fail cl cross st show ?thesis
    by (simp add: empty_world_def)
qed

text \<open>
  C10. Take a callback whose key resolves to a non-empty text and whose option is not
  \<open>output_summarize\<close>. If the option does not start with \<open>summary_\<close> and the text file
  can be written, then after the handler \<open>outputs/<key>.txt\<close> holds the full extracted
  text, whatever the option is and whatever happens afterwards; for the message-only option
  the handler writes the file and sends the chunks, and for an option that is none of the
  four known ones it writes the file and answers "Invalid option". If the option starts
  with \<open>summary_\<close>, the summary resolves to a non-empty text and the file can be
  written, then \<open>outputs/summary_<key>.txt\<close> holds the summary, also for the
  message-only option.
\<close>

theorem output_choice_always_writes_txt:
  assumes "124 \<notin> set opt" and "124 \<notin> set text_key"
    and "user_data w text_key = Some T" and "T \<noteq> []"
    and "opt \<noteq> lit ''output_summarize''"
  shows
   "(\<not> startswith opt (lit ''summary_'') \<longrightarrow>
     write_error e (lit ''outputs/'' @ text_key @ lit ''.txt'') = None \<longrightarrow>
       files (snd (handle_output_choice e \<lparr>data = opt @ 124 # text_key\<rparr> w))
         (lit ''outputs/'' @ text_key @ lit ''.txt'') = Some (Utf8 T)
       \<and> (opt = lit ''output_message'' \<longrightarrow>
            handle_output_choice e \<lparr>data = opt @ 124 # text_key\<rparr> w
              = (None,
                 w\<lparr>files := (files w)(lit ''outputs/'' @ text_key @ lit ''.txt'' \<mapsto> Utf8 T),
                   sent := sent w @ AnswerCallback
                             # map ReplyText (chunk_loop 0 4096 (extracted_header @ T))\<rparr>))
       \<and> (opt \<noteq> lit ''output_message'' \<longrightarrow> opt \<noteq> lit ''output_txt'' \<longrightarrow>
          opt \<noteq> lit ''output_both'' \<longrightarrow> opt \<noteq> lit ''output_docx'' \<longrightarrow>
            handle_output_choice e \<lparr>data = opt @ 124 # text_key\<rparr> w
              = (None,
                 w\<lparr>files := (files w)(lit ''outputs/'' @ text_key @ lit ''.txt'' \<mapsto> Utf8 T),
                   sent := sent w @ [AnswerCallback, ReplyText invalid_option_msg]\<rparr>)))
    \<and> (startswith opt (lit ''summary_'') \<longrightarrow>
        user_data w (summary_key text_key) = Some S \<longrightarrow> S \<noteq> [] \<longrightarrow>
        write_error e (lit ''outputs/summary_'' @ text_key @ lit ''.txt'') = None \<longrightarrow>
          files (snd (handle_output_choice e \<lparr>data = opt @ 124 # text_key\<rparr> w))
            (lit ''outputs/summary_'' @ text_key @ lit ''.txt'') = Some (Utf8 S)
          \<and> (opt = lit ''summary_message'' \<longrightarrow>
               handle_output_choice e \<lparr>data = opt @ 124 # text_key\<rparr> w
                 = (None,
                    w\<lparr>files := (files w)
                         (lit ''outputs/summary_'' @ text_key @ lit ''.txt'' \<mapsto> Utf8 S),
                      sent := sent w @ AnswerCallback
                                # map ReplyText (chunk_loop 0 4096 (summary_header @ S))\<rparr>)))"
proof -
  let ?q = "\<lparr>data = opt @ 124 # text_key\<rparr>"
  let ?w0 = "reply AnswerCallback w"
  have ud: "user_data ?w0 = user_data w" by simp
  have prim: "handle_output_choice_try e ?q ?w0 = primary_choice e opt text_key T ?w0"
    if "\<not> startswith opt (lit ''summary_'')"
    using that assms
    by (simp add: handle_output_choice_try_def split_str_one_sep Let_def)
  have summ: "handle_output_choice_try e ?q ?w0 = summary_choice e opt text_key ?w0"
    if "startswith opt (lit ''summary_'')"
    using that assms
    by (simp add: handle_output_choice_try_def split_str_one_sep Let_def)
  have files_handler: "files (snd (handle_output_choice e ?q w)) k
      = files (snd (handle_output_choice_try e ?q ?w0)) k" for k
    by (simp add: handle_output_choice_def split: prod.splits sum.splits)
  have p1: "files (snd (handle_output_choice e ?q w))
         (lit ''outputs/'' @ text_key @ lit ''.txt'') = Some (Utf8 T)"
    if "\<not> startswith opt (lit ''summary_'')"
      "write_error e (lit ''outputs/'' @ text_key @ lit ''.txt'') = None"
    using primary_choice_writes_txt [OF that(2)] by (simp add: files_handler prim [OF that(1)])
  have p2: "handle_output_choice e ?q w
              = (None,
                 w\<lparr>files := (files w)(lit ''outputs/'' @ text_key @ lit ''.txt'' \<mapsto> Utf8 T),
                   sent := sent w @ AnswerCallback
                             # map ReplyText (chunk_loop 0 4096 (extracted_header @ T))\<rparr>)"
    if "\<not> startswith opt (lit ''summary_'')"
      "write_error e (lit ''outputs/'' @ text_key @ lit ''.txt'') = None"
      "opt = lit ''output_message''"
    using that(2,3) unfolding handle_output_choice_def prim [OF that(1)]
    by (simp add: primary_choice_def Let_def write_text_def send_text_chunks_def reply_def
          del: append_assoc)
  have p3: "handle_output_choice e ?q w
              = (None,
                 w\<lparr>files := (files w)(lit ''outputs/'' @ text_key @ lit ''.txt'' \<mapsto> Utf8 T),
                   sent := sent w @ [AnswerCallback, ReplyText invalid_option_msg]\<rparr>)"
    if "\<not> startswith opt (lit ''summary_'')"
      "write_error e (lit ''outputs/'' @ text_key @ lit ''.txt'') = None"
      "opt \<noteq> lit ''output_message''" "opt \<noteq> lit ''output_txt''"
      "opt \<noteq> lit ''output_both''" "opt \<noteq> lit ''output_docx''"
    using that(2-) unfolding handle_output_choice_def prim [OF that(1)]
    by (simp add: primary_choice_def Let_def write_text_def reply_def del: append_assoc)
  have s1: "files (snd (handle_output_choice e ?q w))
            (lit ''outputs/summary_'' @ text_key @ lit ''.txt'') = Some (Utf8 S)"
    if "startswith opt (lit ''summary_'')"
      "user_data w (summary_key text_key) = Some S" "S \<noteq> []"
      "write_error e (lit ''outputs/summary_'' @ text_key @ lit ''.txt'') = None"
    using summary_choice_writes_txt [of ?w0 text_key S e opt] that(2-)
    by (simp add: files_handler summ [OF that(1)])
  have s2: "handle_output_choice e ?q w
                 = (None,
                    w\<lparr>files := (files w)
                         (lit ''outputs/summary_'' @ text_key @ lit ''.txt'' \<mapsto> Utf8 S),
                      sent := sent w @ AnswerCallback
                                # map ReplyText (chunk_loop 0 4096 (summary_header @ S))\<rparr>)"
    if "startswith opt (lit ''summary_'')"
      "user_data w (summary_key text_key) = Some S" "S \<noteq> []"
      "write_error e (lit ''outputs/summary_'' @ text_key @ lit ''.txt'') = None"
      "opt = lit ''summary_message''"
    using that(2-) unfolding handle_output_choice_def summ [OF that(1)]
    by (simp add: summary_choice_def Let_def write_text_def send_text_chunks_def reply_def
          del: append_assoc)
  show ?thesis
    apply (rule conjI)
    subgoal
      apply (intro impI conjI)
      subgoal by (rule p1)
      subgoal by (rule p2)
      subgoal by (rule p3)
      done
    subgoal
      apply (intro impI conjI)
      subgoal by (rule s1)
      subgoal by (rule s2)
      done
    done
qed

theorem output_choice_always_writes_txt_witness:
  "handle_output_choice example_env \<lparr>data = lit ''output_pdf'' @ 124 # lit ''ab12cd34''\<rparr>
     (empty_world\<lparr>user_data := [lit ''ab12cd34'' \<mapsto> lit ''Hello world'']\<rparr>)
     = (None,
        empty_world
          \<lparr>user_data := [lit ''ab12cd34'' \<mapsto> lit ''Hello world''],
           files := [lit ''outputs/'' @ lit ''ab12cd34'' @ lit ''.txt''
                       \<mapsto> Utf8 (lit ''Hello world'')],
           sent := [AnswerCallback, ReplyText invalid_option_msg]\<rparr>)"
proof -
  let ?w = "empty_world\<lparr>user_data := [lit ''ab12cd34'' \<mapsto> lit ''Hello world'']\<rparr>"
  have a1: "124 \<notin> set (lit ''output_pdf'')" and a2: "124 \<notin> set (lit ''ab12cd34'')"
    by (simp_all add: lit_def)
  have a3: "user_data ?w (lit ''ab12cd34'') = Some (lit ''Hello world'')" by simp
  have a4: "lit ''Hello world'' \<noteq> []" by (simp add: lit_def)
  have a5: "lit ''output_pdf'' \<noteq> lit ''output_summarize''" by (simp add: lit_eq_iff)
  have b1: "\<not> startswith (lit ''output_pdf'') (lit ''summary_'')"
    by (simp add: startswith_def lit_def)
  have b2: "write_error example_env (lit ''outputs/'' @ lit ''ab12cd34'' @ lit ''.txt'') = None"
    by (simp add: example_env_def)
  have c1: "lit ''output_pdf'' \<noteq> lit ''output_message''"
    and c2: "lit ''output_pdf'' \<noteq> lit ''output_txt''"
    and c3: "lit ''output_pdf'' \<noteq> lit ''output_both''"
    and c4: "lit ''output_pdf'' \<noteq> lit ''output_docx''"
    by (simp_all add: lit_eq_iff)
  note inst = output_choice_always_writes_txt [OF a1 a2 a3 a4 a5, of example_env]
  note prim = inst [THEN conjunct1, THEN mp, OF b1, THEN mp, OF b2]
  note other = prim [THEN conjunct2, THEN conjunct2, THEN mp, OF c1, THEN mp, OF c2,
      THEN mp, OF c3, THEN mp, OF c4]
  show ?thesis
    using other by (simp add: empty_world_def)
qed

text \<open>
  C8, as the code has it. The failures are those of the download, of the Document AI client
  and call, of reading and writing local files, of unpacking the callback data, and of
  every send, which the transport may refuse. In \<^verbatim>\<open>handle_document\<close>, once the file of
  the message is selected: if the body of the \<^verbatim>\<open>try\<close> returns, so does the handler; if
  the body raises, the exception is logged with the handler's prefix, and then the handler
  sends its generic error message and returns normally if the transport accepts that
  message, while if the transport refuses it the exception of that send leaves the handler,
  the log record being written all the same. Whatever the outcome, \<^verbatim>\<open>user_data\<close> is as
  before at every key other than \<^verbatim>\<open>current_file_path\<close>, the key minted by this event
  and its \<^verbatim>\<open>file_path_\<close> entry, and every local file other than the one the download is
  saved under is as before. A failing download raises in the body with the state unchanged,
  and a failing remote call raises in the body after the download was saved, its path
  recorded and the processing notice sent. In \<^verbatim>\<open>handle_output_choice\<close> the
  acknowledgement of the callback precedes the \<^verbatim>\<open>try\<close>: if the transport refuses it, that
  exception leaves the handler with the state unchanged; if it is accepted, the body of the
  \<^verbatim>\<open>try\<close> is treated as in \<^verbatim>\<open>handle_document\<close>, with this handler's prefix and
  message. Whatever the outcome, \<^verbatim>\<open>user_data\<close> is as before at every key other than the
  \<^verbatim>\<open>summary_\<close> entry of the key in the callback data, and every local file other than
  the four output files named after that key is as before. A text file that cannot be
  written raises in the body.
\<close>

theorem failures_caught_unless_notice_refused:
  "(select_file m = Inr (file_id, file_name) \<longrightarrow>
      (\<forall>w1. handle_document_try_tr tr e file_id file_name w = (Inr (), w1) \<longrightarrow>
          handle_document_tr tr e m w = (None, w1))
    \<and> (\<forall>x w1. handle_document_try_tr tr e file_id file_name w = (Inl x, w1) \<longrightarrow>
          (tr (sent w1) (ReplyText processing_error_msg) = None \<longrightarrow>
             handle_document_tr tr e m w
               = (None, w1\<lparr>sent := sent w1 @ [ReplyText processing_error_msg],
                            logged := logged w1 @ [(lit ''Error processing file: '', x)]\<rparr>))
        \<and> (\<forall>y. tr (sent w1) (ReplyText processing_error_msg) = Some y \<longrightarrow>
             handle_document_tr tr e m w
               = (Some y, w1\<lparr>logged := logged w1 @ [(lit ''Error processing file: '', x)]\<rparr>)))
    \<and> (\<forall>k. k \<noteq> current_file_path \<longrightarrow> k \<noteq> new_text_key e \<longrightarrow>
            k \<noteq> file_path_key (new_text_key e) \<longrightarrow>
          user_data (snd (handle_document_tr tr e m w)) k = user_data w k)
    \<and> (\<forall>p. p \<noteq> file_name \<longrightarrow> files (snd (handle_document_tr tr e m w)) p = files w p)
    \<and> (download e file_id = Inl x1 \<longrightarrow>
          handle_document_try_tr tr e file_id file_name w = (Inl x1, w))
    \<and> (download e file_id = Inr bytes \<longrightarrow>
        tr (sent w) (ReplyText processing_msg) = None \<longrightarrow>
        client_error e = None \<longrightarrow>
        mime_type_of file_name = Some mime \<longrightarrow>
        remote e \<lparr>req_name = processor_path e (PROCESSOR_ID e),
                   req_content = Bytes bytes, req_mime_type = mime\<rparr> = Inl x2 \<longrightarrow>
          handle_document_try_tr tr e file_id file_name w
            = (Inl x2,
               w\<lparr>user_data := (user_data w)(current_file_path \<mapsto> file_name),
                 files := (files w)(file_name \<mapsto> Bytes bytes),
                 sent := sent w @ [ReplyText processing_msg],
                 remote_calls := remote_calls w
                   @ [\<lparr>req_name = processor_path e (PROCESSOR_ID e),
                       req_content = Bytes bytes, req_mime_type = mime\<rparr>]\<rparr>)))
   \<and> (\<forall>y. tr (sent w) AnswerCallback = Some y \<longrightarrow>
         handle_output_choice_tr tr e q w = (Some y, w))
   \<and> (tr (sent w) AnswerCallback = None \<longrightarrow>
         (\<forall>w1. handle_output_choice_try_tr tr e q (reply AnswerCallback w) = (Inr (), w1) \<longrightarrow>
             handle_output_choice_tr tr e q w = (None, w1))
       \<and> (\<forall>x w1. handle_output_choice_try_tr tr e q (reply AnswerCallback w) = (Inl x, w1) \<longrightarrow>
             (tr (sent w1) (ReplyText selection_error_msg) = None \<longrightarrow>
                handle_output_choice_tr tr e q w
                  = (None, w1\<lparr>sent := sent w1 @ [ReplyText selection_error_msg],
                               logged := logged w1
                                 @ [(lit ''Error handling output choice: '', x)]\<rparr>))
           \<and> (\<forall>y. tr (sent w1) (ReplyText selection_error_msg) = Some y \<longrightarrow>
                handle_output_choice_tr tr e q w
                  = (Some y, w1\<lparr>logged := logged w1
                                  @ [(lit ''Error handling output choice: '', x)]\<rparr>))))
   \<and> (\<forall>k. k \<noteq> summary_key (last (split_str 124 (data q))) \<longrightarrow>
         user_data (snd (handle_output_choice_tr tr e q w)) k = user_data w k)
   \<and> (\<forall>p. p \<noteq> lit ''outputs/'' @ last (split_str 124 (data q)) @ lit ''.txt'' \<longrightarrow>
           p \<noteq> lit ''outputs/'' @ last (split_str 124 (data q)) @ lit ''.docx'' \<longrightarrow>
           p \<noteq> lit ''outputs/summary_'' @ last (split_str 124 (data q)) @ lit ''.txt'' \<longrightarrow>
           p \<noteq> lit ''outputs/summary_'' @ last (split_str 124 (data q)) @ lit ''.docx'' \<longrightarrow>
         files (snd (handle_output_choice_tr tr e q w)) p = files w p)
   \<and> (124 \<notin> set opt \<longrightarrow> 124 \<notin> set text_key \<longrightarrow> user_data w text_key = Some T \<longrightarrow> T \<noteq> [] \<longrightarrow>
       opt \<noteq> lit ''output_summarize'' \<longrightarrow> \<not> startswith opt (lit ''summary_'') \<longrightarrow>
       write_error e (lit ''outputs/'' @ text_key @ lit ''.txt'') = Some x3 \<longrightarrow>
         handle_output_choice_try_tr tr e \<lparr>data = opt @ 124 # text_key\<rparr> (reply AnswerCallback w)
           = (Inl x3, reply AnswerCallback w))"
proof -
  have a1: "handle_document_tr tr e m w = (None, w1)"
    if "select_file m = Inr (file_id, file_name)"
       "handle_document_try_tr tr e file_id file_name w = (Inr (), w1)" for w1
    using that by (simp add: handle_document_tr_def)
  have a2: "handle_document_tr tr e m w
               = (None, w1\<lparr>sent := sent w1 @ [ReplyText processing_error_msg],
                            logged := logged w1 @ [(lit ''Error processing file: '', x)]\<rparr>)"
    if "select_file m = Inr (file_id, file_name)"
       "handle_document_try_tr tr e file_id file_name w = (Inl x, w1)"
       "tr (sent w1) (ReplyText processing_error_msg) = None" for x w1
    using that by (simp add: handle_document_tr_def send_def log_error_def reply_def)
  have a3: "handle_document_tr tr e m w
               = (Some y, w1\<lparr>logged := logged w1 @ [(lit ''Error processing file: '', x)]\<rparr>)"
    if "select_file m = Inr (file_id, file_name)"
       "handle_document_try_tr tr e file_id file_name w = (Inl x, w1)"
       "tr (sent w1) (ReplyText processing_error_msg) = Some y" for x w1 y
    using that by (simp add: handle_document_tr_def send_def log_error_def reply_def)
  have a45: "(k \<noteq> current_file_path \<longrightarrow> k \<noteq> new_text_key e \<longrightarrow>
            k \<noteq> file_path_key (new_text_key e) \<longrightarrow>
          user_data (snd (handle_document_tr tr e m w)) k = user_data w k)
       \<and> (p \<noteq> file_name \<longrightarrow> files (snd (handle_document_tr tr e m w)) p = files w p)"
    if sel: "select_file m = Inr (file_id, file_name)" for k p
  proof -
    obtain r w1 where body: "handle_document_try_tr tr e file_id file_name w = (r, w1)"
      by (cases "handle_document_try_tr tr e file_id file_name w") blast
    note fr = handle_document_try_tr_frame [OF body]
    show ?thesis
    proof (cases r)
      case (Inr u)
      with sel body have "handle_document_tr tr e m w = (None, w1)"
        by (simp add: handle_document_tr_def)
      with fr show ?thesis by simp
    next
      case (Inl x)
      obtain r2 w2 where s2: "send tr (ReplyText processing_error_msg)
          (log_error (lit ''Error processing file: '') x w1) = (r2, w2)"
        by (cases "send tr (ReplyText processing_error_msg)
          (log_error (lit ''Error processing file: '') x w1)") blast
      from send_frame [OF s2] have f2: "user_data w2 = user_data w1" "files w2 = files w1"
        by simp_all
      from sel body Inl s2 have "snd (handle_document_tr tr e m w) = w2"
        by (simp add: handle_document_tr_def split: sum.splits)
      with fr f2 show ?thesis by simp
    qed
  qed
  have a6: "handle_document_try_tr tr e file_id file_name w = (Inl x1, w)"
    if "download e file_id = Inl x1"
    using that by (simp add: handle_document_try_tr_def)
  have a7: "handle_document_try_tr tr e file_id file_name w
            = (Inl x2,
               w\<lparr>user_data := (user_data w)(current_file_path \<mapsto> file_name),
                 files := (files w)(file_name \<mapsto> Bytes bytes),
                 sent := sent w @ [ReplyText processing_msg],
                 remote_calls := remote_calls w
                   @ [\<lparr>req_name = processor_path e (PROCESSOR_ID e),
                       req_content = Bytes bytes, req_mime_type = mime\<rparr>]\<rparr>)"
    if "download e file_id = Inr bytes" "tr (sent w) (ReplyText processing_msg) = None"
      "client_error e = None" "mime_type_of file_name = Some mime"
      "remote e \<lparr>req_name = processor_path e (PROCESSOR_ID e),
                        req_content = Bytes bytes, req_mime_type = mime\<rparr> = Inl x2"
    using that
    by (simp add: handle_document_try_tr_def send_def process_document_def
          client_process_document_def reply_def Let_def)
  have b0: "handle_output_choice_tr tr e q w = (Some y, w)"
    if "tr (sent w) AnswerCallback = Some y" for y
    using that by (simp add: handle_output_choice_tr_def send_def)
  have b1: "handle_output_choice_tr tr e q w = (None, w1)"
    if "tr (sent w) AnswerCallback = None"
       "handle_output_choice_try_tr tr e q (reply AnswerCallback w) = (Inr (), w1)" for w1
    using that by (simp add: handle_output_choice_tr_def send_def)
  have b2: "handle_output_choice_tr tr e q w
                  = (None, w1\<lparr>sent := sent w1 @ [ReplyText selection_error_msg],
                               logged := logged w1
                                 @ [(lit ''Error handling output choice: '', x)]\<rparr>)"
    if "tr (sent w) AnswerCallback = None"
       "handle_output_choice_try_tr tr e q (reply AnswerCallback w) = (Inl x, w1)"
       "tr (sent w1) (ReplyText selection_error_msg) = None" for x w1
    using that by (simp add: handle_output_choice_tr_def send_def log_error_def reply_def)
  have b3: "handle_output_choice_tr tr e q w
                  = (Some y, w1\<lparr>logged := logged w1
                                  @ [(lit ''Error handling output choice: '', x)]\<rparr>)"
    if "tr (sent w) AnswerCallback = None"
       "handle_output_choice_try_tr tr e q (reply AnswerCallback w) = (Inl x, w1)"
       "tr (sent w1) (ReplyText selection_error_msg) = Some y" for x w1 y
    using that by (simp add: handle_output_choice_tr_def send_def log_error_def reply_def)
  have b45: "(k \<noteq> summary_key (last (split_str 124 (data q))) \<longrightarrow>
         user_data (snd (handle_output_choice_tr tr e q w)) k = user_data w k)
     \<and> (p \<noteq> lit ''outputs/'' @ last (split_str 124 (data q)) @ lit ''.txt'' \<longrightarrow>
           p \<noteq> lit ''outputs/'' @ last (split_str 124 (data q)) @ lit ''.docx'' \<longrightarrow>
           p \<noteq> lit ''outputs/summary_'' @ last (split_str 124 (data q)) @ lit ''.txt'' \<longrightarrow>
           p \<noteq> lit ''outputs/summary_'' @ last (split_str 124 (data q)) @ lit ''.docx'' \<longrightarrow>
         files (snd (handle_output_choice_tr tr e q w)) p = files w p)" for k p
  proof (cases "tr (sent w) AnswerCallback")
    case (Some y)
    from b0 [OF this] show ?thesis by simp
  next
    case None
    obtain r w1 where body: "handle_output_choice_try_tr tr e q (reply AnswerCallback w) = (r, w1)"
      by (cases "handle_output_choice_try_tr tr e q (reply AnswerCallback w)") blast
    note fr = handle_output_choice_try_tr_frame [OF body, of k p]
    show ?thesis
    proof (cases r)
      case (Inr u)
      with None body have "handle_output_choice_tr tr e q w = (None, w1)"
        by (simp add: handle_output_choice_tr_def send_def)
      with fr show ?thesis by simp
    next
      case (Inl x)
      obtain r2 w2 where s2: "send tr (ReplyText selection_error_msg)
          (log_error (lit ''Error handling output choice: '') x w1) = (r2, w2)"
        by (cases "send tr (ReplyText selection_error_msg)
          (log_error (lit ''Error handling output choice: '') x w1)") blast
      from send_frame [OF s2] have f2: "user_data w2 = user_data w1" "files w2 = files w1"
        by simp_all
      from None body Inl s2 have "snd (handle_output_choice_tr tr e q w) = w2"
        by (simp add: handle_output_choice_tr_def send_def split: sum.splits)
      with fr f2 show ?thesis by simp
    qed
  qed
  have b6: "handle_output_choice_try_tr tr e \<lparr>data = opt @ 124 # text_key\<rparr>
              (reply AnswerCallback w) = (Inl x3, reply AnswerCallback w)"
    if "124 \<notin> set opt" "124 \<notin> set text_key" "user_data w text_key = Some T" "T \<noteq> []"
       "opt \<noteq> lit ''output_summarize''" "\<not> startswith opt (lit ''summary_'')"
       "write_error e (lit ''outputs/'' @ text_key @ lit ''.txt'') = Some x3"
    using that
    by (simp add: handle_output_choice_try_tr_def split_str_one_sep
          primary_choice_tr_def write_text_def Let_def)
  have doc: "select_file m = Inr (file_id, file_name) \<longrightarrow>
      (\<forall>w1. handle_document_try_tr tr e file_id file_name w = (Inr (), w1) \<longrightarrow>
          handle_document_tr tr e m w = (None, w1))
    \<and> (\<forall>x w1. handle_document_try_tr tr e file_id file_name w = (Inl x, w1) \<longrightarrow>
          (tr (sent w1) (ReplyText processing_error_msg) = None \<longrightarrow>
             handle_document_tr tr e m w
               = (None, w1\<lparr>sent := sent w1 @ [ReplyText processing_error_msg],
                            logged := logged w1 @ [(lit ''Error processing file: '', x)]\<rparr>))
        \<and> (\<forall>y. tr (sent w1) (ReplyText processing_error_msg) = Some y \<longrightarrow>
             handle_document_tr tr e m w
               = (Some y, w1\<lparr>logged := logged w1 @ [(lit ''Error processing file: '', x)]\<rparr>)))
    \<and> (\<forall>k. k \<noteq> current_file_path \<longrightarrow> k \<noteq> new_text_key e \<longrightarrow>
            k \<noteq> file_path_key (new_text_key e) \<longrightarrow>
          user_data (snd (handle_document_tr tr e m w)) k = user_data w k)
    \<and> (\<forall>p. p \<noteq> file_name \<longrightarrow> files (snd (handle_document_tr tr e m w)) p = files w p)
    \<and> (download e file_id = Inl x1 \<longrightarrow>
          handle_document_try_tr tr e file_id file_name w = (Inl x1, w))
    \<and> (download e file_id = Inr bytes \<longrightarrow>
        tr (sent w) (ReplyText processing_msg) = None \<longrightarrow>
        client_error e = None \<longrightarrow>
        mime_type_of file_name = Some mime \<longrightarrow>
        remote e \<lparr>req_name = processor_path e (PROCESSOR_ID e),
                   req_content = Bytes bytes, req_mime_type = mime\<rparr> = Inl x2 \<longrightarrow>
          handle_document_try_tr tr e file_id file_name w
            = (Inl x2,
               w\<lparr>user_data := (user_data w)(current_file_path \<mapsto> file_name),
                 files := (files w)(file_name \<mapsto> Bytes bytes),
                 sent := sent w @ [ReplyText processing_msg],
                 remote_calls := remote_calls w
                   @ [\<lparr>req_name = processor_path e (PROCESSOR_ID e),
                       req_content = Bytes bytes, req_mime_type = mime\<rparr>]\<rparr>))"
  proof
    assume sel: "select_file m = Inr (file_id, file_name)"
    note p1 = a1 [OF sel] and p2 = a2 [OF sel] and p3 = a3 [OF sel] and p45 = a45 [OF sel]
    have c1: "\<forall>w1. handle_document_try_tr tr e file_id file_name w = (Inr (), w1) \<longrightarrow>
          handle_document_tr tr e m w = (None, w1)"
      using p1 by blast
    have c2: "\<forall>x w1. handle_document_try_tr tr e file_id file_name w = (Inl x, w1) \<longrightarrow>
          (tr (sent w1) (ReplyText processing_error_msg) = None \<longrightarrow>
             handle_document_tr tr e m w
               = (None, w1\<lparr>sent := sent w1 @ [ReplyText processing_error_msg],
                            logged := logged w1 @ [(lit ''Error processing file: '', x)]\<rparr>))
        \<and> (\<forall>y. tr (sent w1) (ReplyText processing_error_msg) = Some y \<longrightarrow>
             handle_document_tr tr e m w
               = (Some y, w1\<lparr>logged := logged w1 @ [(lit ''Error processing file: '', x)]\<rparr>))"
      using p2 p3 by blast
    have c3: "\<forall>k. k \<noteq> current_file_path \<longrightarrow> k \<noteq> new_text_key e \<longrightarrow>
            k \<noteq> file_path_key (new_text_key e) \<longrightarrow>
          user_data (snd (handle_document_tr tr e m w)) k = user_data w k"
      using p45 by blast
    have c4: "\<forall>p. p \<noteq> file_name \<longrightarrow> files (snd (handle_document_tr tr e m w)) p = files w p"
      using p45 by blast
    have c5: "download e file_id = Inl x1 \<longrightarrow>
          handle_document_try_tr tr e file_id file_name w = (Inl x1, w)"
      using a6 by blast
    have c6: "download e file_id = Inr bytes \<longrightarrow>
        tr (sent w) (ReplyText processing_msg) = None \<longrightarrow>
        client_error e = None \<longrightarrow>
        mime_type_of file_name = Some mime \<longrightarrow>
        remote e \<lparr>req_name = processor_path e (PROCESSOR_ID e),
                   req_content = Bytes bytes, req_mime_type = mime\<rparr> = Inl x2 \<longrightarrow>
          handle_document_try_tr tr e file_id file_name w
            = (Inl x2,
               w\<lparr>user_data := (user_data w)(current_file_path \<mapsto> file_name),
                 files := (files w)(file_name \<mapsto> Bytes bytes),
                 sent := sent w @ [ReplyText processing_msg],
                 remote_calls := remote_calls w
                   @ [\<lparr>req_name = processor_path e (PROCESSOR_ID e),
                       req_content = Bytes bytes, req_mime_type = mime\<rparr>]\<rparr>)"
      using a7 by (intro impI)
    from c1 c2 c3 c4 c5 c6 show "(\<forall>w1. handle_document_try_tr tr e file_id file_name w = (Inr (), w1) \<longrightarrow>
          handle_document_tr tr e m w = (None, w1))
    \<and> (\<forall>x w1. handle_document_try_tr tr e file_id file_name w = (Inl x, w1) \<longrightarrow>
          (tr (sent w1) (ReplyText processing_error_msg) = None \<longrightarrow>
             handle_document_tr tr e m w
               = (None, w1\<lparr>sent := sent w1 @ [ReplyText processing_error_msg],
                            logged := logged w1 @ [(lit ''Error processing file: '', x)]\<rparr>))
        \<and> (\<forall>y. tr (sent w1) (ReplyText processing_error_msg) = Some y \<longrightarrow>
             handle_document_tr tr e m w
               = (Some y, w1\<lparr>logged := logged w1 @ [(lit ''Error processing file: '', x)]\<rparr>)))
    \<and> (\<forall>k. k \<noteq> current_file_path \<longrightarrow> k \<noteq> new_text_key e \<longrightarrow>
            k \<noteq> file_path_key (new_text_key e) \<longrightarrow>
          user_data (snd (handle_document_tr tr e m w)) k = user_data w k)
    \<and> (\<forall>p. p \<noteq> file_name \<longrightarrow> files (snd (handle_document_tr tr e m w)) p = files w p)
    \<and> (download e file_id = Inl x1 \<longrightarrow>
          handle_document_try_tr tr e file_id file_name w = (Inl x1, w))
    \<and> (download e file_id = Inr bytes \<longrightarrow>
        tr (sent w) (ReplyText processing_msg) = None \<longrightarrow>
        client_error e = None \<longrightarrow>
        mime_type_of file_name = Some mime \<longrightarrow>
        remote e \<lparr>req_name = processor_path e (PROCESSOR_ID e),
                   req_content = Bytes bytes, req_mime_type = mime\<rparr> = Inl x2 \<longrightarrow>
          handle_document_try_tr tr e file_id file_name w
            = (Inl x2,
               w\<lparr>user_data := (user_data w)(current_file_path \<mapsto> file_name),
                 files := (files w)(file_name \<mapsto> Bytes bytes),
                 sent := sent w @ [ReplyText processing_msg],
                 remote_calls := remote_calls w
                   @ [\<lparr>req_name = processor_path e (PROCESSOR_ID e),
                       req_content = Bytes bytes, req_mime_type = mime\<rparr>]\<rparr>))"
      by (intro conjI)
  qed
  have cb0: "\<forall>y. tr (sent w) AnswerCallback = Some y \<longrightarrow>
         handle_output_choice_tr tr e q w = (Some y, w)"
    using b0 by blast
  have cb1: "tr (sent w) AnswerCallback = None \<longrightarrow>
         (\<forall>w1. handle_output_choice_try_tr tr e q (reply AnswerCallback w) = (Inr (), w1) \<longrightarrow>
             handle_output_choice_tr tr e q w = (None, w1))
       \<and> (\<forall>x w1. handle_output_choice_try_tr tr e q (reply AnswerCallback w) = (Inl x, w1) \<longrightarrow>
             (tr (sent w1) (ReplyText selection_error_msg) = None \<longrightarrow>
                handle_output_choice_tr tr e q w
                  = (None, w1\<lparr>sent := sent w1 @ [ReplyText selection_error_msg],
                               logged := logged w1
                                 @ [(lit ''Error handling output choice: '', x)]\<rparr>))
           \<and> (\<forall>y. tr (sent w1) (ReplyText selection_error_msg) = Some y \<longrightarrow>
                handle_output_choice_tr tr e q w
                  = (Some y, w1\<lparr>logged := logged w1
                                  @ [(lit ''Error handling output choice: '', x)]\<rparr>)))"
    using b1 b2 b3 by blast
  have cb2: "\<forall>k. k \<noteq> summary_key (last (split_str 124 (data q))) \<longrightarrow>
         user_data (snd (handle_output_choice_tr tr e q w)) k = user_data w k"
    using b45 by blast
  have cb3: "\<forall>p. p \<noteq> lit ''outputs/'' @ last (split_str 124 (data q)) @ lit ''.txt'' \<longrightarrow>
           p \<noteq> lit ''outputs/'' @ last (split_str 124 (data q)) @ lit ''.docx'' \<longrightarrow>
           p \<noteq> lit ''outputs/summary_'' @ last (split_str 124 (data q)) @ lit ''.txt'' \<longrightarrow>
           p \<noteq> lit ''outputs/summary_'' @ last (split_str 124 (data q)) @ lit ''.docx'' \<longrightarrow>
         files (snd (handle_output_choice_tr tr e q w)) p = files w p"
    using b45 by blast
  have cb4: "124 \<notin> set opt \<longrightarrow> 124 \<notin> set text_key \<longrightarrow> user_data w text_key = Some T \<longrightarrow> T \<noteq> [] \<longrightarrow>
       opt \<noteq> lit ''output_summarize'' \<longrightarrow> \<not> startswith opt (lit ''summary_'') \<longrightarrow>
       write_error e (lit ''outputs/'' @ text_key @ lit ''.txt'') = Some x3 \<longrightarrow>
         handle_output_choice_try_tr tr e \<lparr>data = opt @ 124 # text_key\<rparr> (reply AnswerCallback w)
           = (Inl x3, reply AnswerCallback w)"
    using b6 by (intro impI)
  from doc cb0 cb1 cb2 cb3 cb4 show ?thesis by (intro conjI)
qed

theorem failures_caught_unless_notice_refused_witness:
  "select_file photo_message = Inr (lit ''p1'', lit ''downloads/p1.jpg'')
   \<and> download (example_env\<lparr>download := \<lambda>i. Inl (ExternalError (lit ''timed out''))\<rparr>)
        (lit ''p1'') = Inl (ExternalError (lit ''timed out''))
   \<and> accept_all (sent empty_world) (ReplyText processing_error_msg) = None
   \<and> handle_document_tr accept_all
        (example_env\<lparr>download := \<lambda>i. Inl (ExternalError (lit ''timed out''))\<rparr>)
        photo_message empty_world
       = (None, empty_world
            \<lparr>sent := [ReplyText processing_error_msg],
             logged := [(lit ''Error processing file: '',
                         ExternalError (lit ''timed out''))]\<rparr>)"
proof -
  have sel: "select_file photo_message = Inr (lit ''p1'', lit ''downloads/p1.jpg'')"
    by (simp add: select_file_def photo_message_def lit_def)
  have dl: "download (example_env\<lparr>download := \<lambda>i. Inl (ExternalError (lit ''timed out''))\<rparr>)
              (lit ''p1'') = Inl (ExternalError (lit ''timed out''))"
    by simp
  have acc: "accept_all (sent empty_world) (ReplyText processing_error_msg) = None"
    by (simp add: accept_all_def)
  note inst = failures_caught_unless_notice_refused
      [of photo_message "lit ''p1''" "lit ''downloads/p1.jpg''" accept_all
          "example_env\<lparr>download := \<lambda>i. Inl (ExternalError (lit ''timed out''))\<rparr>"
          empty_world "ExternalError (lit ''timed out'')"]
  note doc = inst [THEN conjunct1, THEN mp, OF sel]
  note body = doc [THEN conjunct2, THEN conjunct2, THEN conjunct2, THEN conjunct2,
      THEN conjunct1, THEN mp, OF dl]
  note caught = doc [THEN conjunct2, THEN conjunct1, THEN spec, THEN spec, THEN mp, OF body,
      THEN conjunct1, THEN mp, OF acc]
  show ?thesis
    using sel dl acc caught by (simp add: empty_world_def)
qed

text \<open>
  The claim that no failure leaves a handler, that every failure becomes a message to the
  user, and that a failure in one session leaves the others alone, fails for an upload named
  \<open>report.pdf\<close> whose remote call fails while the transport refuses the error notice:
  the exception of the refused notice leaves \<^verbatim>\<open>handle_document\<close>, the user has received
  the processing notice and nothing else, the failure of the remote call is in the log, and
  the file \<open>downloads/report.pdf\<close>, which the earlier session \<open>ab12cd34\<close> names as its
  source, no longer holds what that session uploaded.
\<close>

theorem refused_notice_escapes_and_upload_overwrites:
  "fst (handle_document_tr refuse_error_notice remote_down_env report_message
          earlier_session_world) = Some (ExternalError (lit ''network down''))
   \<and> sent (snd (handle_document_tr refuse_error_notice remote_down_env report_message
                  earlier_session_world)) = [ReplyText processing_msg]
   \<and> logged (snd (handle_document_tr refuse_error_notice remote_down_env report_message
                    earlier_session_world))
       = [(lit ''Error processing file: '', ExternalError (lit ''unavailable''))]
   \<and> user_data earlier_session_world (file_path_key (lit ''ab12cd34''))
       = Some (lit ''downloads/report.pdf'')
   \<and> files earlier_session_world (lit ''downloads/report.pdf'') = Some (Bytes [9, 9])
   \<and> files (snd (handle_document_tr refuse_error_notice remote_down_env report_message
                   earlier_session_world)) (lit ''downloads/report.pdf'')
       = Some (Bytes [1, 2, 3])"
proof -
  have sel: "select_file report_message = Inr (lit ''d2'', lit ''downloads/report.pdf'')"
    by (simp add: select_file_def report_message_def lit_def)
  have mime: "mime_type_of (lit ''downloads/report.pdf'') = Some (lit ''application/pdf'')"
    by (simp add: mime_type_of_def endswith_def lit_def)
  have env: "download remote_down_env (lit ''d2'') = Inr [1, 2, 3]"
    "client_error remote_down_env = None"
    "\<And>r. remote remote_down_env r = Inl (ExternalError (lit ''unavailable''))"
    by (simp_all add: remote_down_env_def example_env_def)
  have tr: "\<And>d. refuse_error_notice d (ReplyText processing_msg) = None"
    "\<And>d. refuse_error_notice d (ReplyText processing_error_msg)
        = Some (ExternalError (lit ''network down''))"
    by (simp_all add: refuse_error_notice_def processing_msg_def processing_error_msg_def
          cross_mark_def)
  have proc: "process_document remote_down_env (lit ''downloads/report.pdf'') w
      = (Inl (ExternalError (lit ''unavailable'')),
         w\<lparr>remote_calls := remote_calls w
             @ [\<lparr>req_name = processor_path remote_down_env (PROCESSOR_ID remote_down_env),
                 req_content = c, req_mime_type = lit ''application/pdf''\<rparr>]\<rparr>)"
    if "files w (lit ''downloads/report.pdf'') = Some c" for w c
    using that mime env
    by (simp add: process_document_def client_process_document_def Let_def)
  have run: "handle_document_tr refuse_error_notice remote_down_env report_message
          earlier_session_world
      = (Some (ExternalError (lit ''network down'')),
         earlier_session_world
           \<lparr>files := (files earlier_session_world)
                       (lit ''downloads/report.pdf'' \<mapsto> Bytes [1, 2, 3]),
            user_data := (user_data earlier_session_world)
                           (current_file_path \<mapsto> lit ''downloads/report.pdf''),
            sent := [ReplyText processing_msg],
            remote_calls :=
              [\<lparr>req_name = processor_path remote_down_env (PROCESSOR_ID remote_down_env),
                req_content = Bytes [1, 2, 3], req_mime_type = lit ''application/pdf''\<rparr>],
            logged := [(lit ''Error processing file: '',
                        ExternalError (lit ''unavailable''))]\<rparr>)"
    using env tr
    by (simp add: handle_document_tr_def sel handle_document_try_tr_def send_def proc
          reply_def log_error_def Let_def earlier_session_world_def empty_world_def)
  have before: "user_data earlier_session_world (file_path_key (lit ''ab12cd34''))
       = Some (lit ''downloads/report.pdf'')"
    "files earlier_session_world (lit ''downloads/report.pdf'') = Some (Bytes [9, 9])"
    by (simp_all add: earlier_session_world_def empty_world_def)
  from before show ?thesis unfolding run by simp
qed

end
